theory Spec2Isabelle
  imports Main "HOL-Library.AList" "HOL-Library.Sublist"
begin

chapter \<open>Model\<close>

section \<open>Python values, exceptions and dictionaries\<close>

text \<open>
  The values that travel through the job functions and the command router are the ones
  that \<^verbatim>\<open>json.loads\<close> produces. Numbers are integers; floating point is left out.
  A Python \<^verbatim>\<open>dict\<close> with string keys is an association list with distinct keys, in
  insertion order.
\<close>

datatype json =
    JNull
  | JBool bool
  | JInt int
  | JStr string
  | JList "json list"
  | JDict "(string \<times> json) list"

type_synonym pydict = "(string \<times> json) list"

text \<open>
  Every exception below is a subclass of Python's \<^verbatim>\<open>Exception\<close>, so each is caught by
  \<^verbatim>\<open>except Exception\<close>. \<open>RuntimeError\<close> stands for any exception a collaborator raises.
\<close>

datatype exn =
    JSONDecodeError string
  | UnicodeDecodeError string
  | ValidationError string
  | KeyError string
  | TypeError string
  | ValueError string
  | AttributeError string
  | UnboundLocalError string
  | OverflowError string
  | RuntimeError string

text \<open>\<^verbatim>\<open>str(e)\<close>: the message; a \<^verbatim>\<open>KeyError\<close> prints the repr of its key.\<close>

fun exn_str :: "exn \<Rightarrow> string" where
  "exn_str (JSONDecodeError m) = m"
| "exn_str (UnicodeDecodeError m) = m"
| "exn_str (ValidationError m) = m"
| "exn_str (KeyError k) = [CHR 0x27] @ k @ [CHR 0x27]"
| "exn_str (TypeError m) = m"
| "exn_str (ValueError m) = m"
| "exn_str (AttributeError m) = m"
| "exn_str (UnboundLocalError m) = m"
| "exn_str (OverflowError m) = m"
| "exn_str (RuntimeError m) = m"

text \<open>Python truthiness, as used by \<^verbatim>\<open>if x\<close>, \<^verbatim>\<open>x or y\<close> and \<^verbatim>\<open>not x\<close>.\<close>

fun truthy :: "json \<Rightarrow> bool" where
  "truthy JNull = False"
| "truthy (JBool b) = b"
| "truthy (JInt i) = (i \<noteq> 0)"
| "truthy (JStr s) = (s \<noteq> [])"
| "truthy (JList xs) = (xs \<noteq> [])"
| "truthy (JDict kvs) = (kvs \<noteq> [])"

definition py_or :: "json \<Rightarrow> json \<Rightarrow> json" where
  "py_or a b = (if truthy a then a else b)"

text \<open>\<^verbatim>\<open>d.get(k)\<close>, \<^verbatim>\<open>d.get(k, default)\<close>, \<^verbatim>\<open>d[k]\<close> and \<^verbatim>\<open>k in d\<close> on a dictionary.\<close>

definition dict_get :: "pydict \<Rightarrow> string \<Rightarrow> json" where
  "dict_get d k = (case map_of d k of None \<Rightarrow> JNull | Some v \<Rightarrow> v)"

definition dict_get_default :: "(string \<times> 'v) list \<Rightarrow> string \<Rightarrow> 'v \<Rightarrow> 'v" where
  "dict_get_default d k dflt = (case map_of d k of None \<Rightarrow> dflt | Some v \<Rightarrow> v)"

definition dict_subscript :: "(string \<times> 'v) list \<Rightarrow> string \<Rightarrow> exn + 'v" where
  "dict_subscript d k = (case map_of d k of None \<Rightarrow> Inl (KeyError k) | Some v \<Rightarrow> Inr v)"

definition dict_contains :: "(string \<times> 'v) list \<Rightarrow> string \<Rightarrow> bool" where
  "dict_contains d k = (map_of d k \<noteq> None)"

section \<open>Command router: severity filter\<close>

text \<open>\<^verbatim>\<open>VERB_MAP\<close> and \<^verbatim>\<open>STATUS_LEVELS\<close> of \<^verbatim>\<open>k0mmand3r.py\<close>.\<close>

definition VERB_MAP :: "(string \<times> string) list" where
  "VERB_MAP =
     [(''dispatch'', ''run''),
      (''status'', ''status''),
      (''capability'', ''create''),
      (''complete'', ''delete''),
      (''message'', ''broadcast'')]"

definition STATUS_LEVELS :: "(string \<times> string list) list" where
  "STATUS_LEVELS =
     [(''critical'', [''error'', ''fatal'']),
      (''compact'', [''info'', ''error'', ''fatal'']),
      (''verbose'', [''debug'', ''info'', ''warn'', ''error'', ''fatal'']),
      (''debug'', [''trace'', ''debug'', ''info'', ''warn'', ''error'', ''fatal''])]"

text \<open>
  \<^verbatim>\<open>K0mmand3rListener._should_publish\<close>:
  \<^verbatim>\<open>allowed_levels = STATUS_LEVELS.get(self.filter_mode, STATUS_LEVELS["compact"])\<close>,
  \<^verbatim>\<open>return level in allowed_levels\<close>. The default argument is a subscript and is
  evaluated before \<^verbatim>\<open>get\<close> is called.
\<close>

definition should_publish :: "string \<Rightarrow> string \<Rightarrow> exn + bool" where
  "should_publish filter_mode level =
     (case dict_subscript STATUS_LEVELS ''compact'' of
        Inl e \<Rightarrow> Inl e
      | Inr dflt \<Rightarrow>
          Inr (level \<in> set (dict_get_default STATUS_LEVELS filter_mode dflt)))"

section \<open>Command router: messages, collaborators and state\<close>

text \<open>
  Modelled from the spec: \<^verbatim>\<open>types.py\<close> of the agent package (\<^verbatim>\<open>K0mmand3rMessage\<close>,
  \<^verbatim>\<open>AgentAction\<close>, \<^verbatim>\<open>ChainAction\<close>) is not among the sources. A decoded command
  has a verb, a free-form params map, an optional content and an agent id; the internal
  action identifiers are the strings \<^verbatim>\<open>run\<close>, \<^verbatim>\<open>create\<close>, \<^verbatim>\<open>status\<close>, \<^verbatim>\<open>delete\<close> and
  \<^verbatim>\<open>broadcast\<close> for agents and \<^verbatim>\<open>run\<close>, \<^verbatim>\<open>status\<close> for chains, and an action read
  from the params compares equal to its identifier.
\<close>

record K0mmand3rMessage =
  verb :: string
  params :: pydict
  content :: json
  agent_id :: json

definition optional_str :: "json \<Rightarrow> bool" where
  "optional_str v = (case v of JNull \<Rightarrow> True | JStr _ \<Rightarrow> True | _ \<Rightarrow> False)"

text \<open>
  Modelled from the spec: \<^verbatim>\<open>K0mmand3rMessage(**message_dict)\<close>. The verb is a string,
  the params are an object (empty when absent), content and agent id are strings when
  present; anything else is a validation error. Other keys are ignored.
\<close>

definition K0mmand3rMessage_init :: "pydict \<Rightarrow> exn + K0mmand3rMessage" where
  "K0mmand3rMessage_init d =
     (case map_of d ''verb'' of
        Some (JStr v) \<Rightarrow>
          (case dict_get_default d ''params'' (JDict []) of
             JDict p \<Rightarrow>
               (if optional_str (dict_get d ''content'') \<and> optional_str (dict_get d ''agent_id'')
                then Inr \<lparr>verb = v, params = p, content = dict_get d ''content'',
                          agent_id = dict_get d ''agent_id''\<rparr>
                else Inl (ValidationError ''content''))
           | _ \<Rightarrow> Inl (ValidationError ''params''))
      | _ \<Rightarrow> Inl (ValidationError ''verb''))"

definition AgentAction_RUN :: json where "AgentAction_RUN = JStr ''run''"
definition AgentAction_CREATE :: json where "AgentAction_CREATE = JStr ''create''"
definition AgentAction_STATUS :: json where "AgentAction_STATUS = JStr ''status''"
definition AgentAction_DELETE :: json where "AgentAction_DELETE = JStr ''delete''"
definition AgentAction_BROADCAST :: json where "AgentAction_BROADCAST = JStr ''broadcast''"
definition ChainAction_RUN :: json where "ChainAction_RUN = JStr ''run''"
definition ChainAction_STATUS :: json where "ChainAction_STATUS = JStr ''status''"

text \<open>
  The outbound status message built by \<^verbatim>\<open>_publish_result\<close>. The wire field \<^verbatim>\<open>agent\<close>
  is \<^verbatim>\<open>langchain.\<close> followed by the text of \<open>sm_agent_name\<close>; the timestamp is left out.
\<close>

record status_message =
  sm_agent_name :: json
  sm_task_id :: json
  sm_type :: string
  sm_level :: string
  sm_message :: json
  sm_metadata :: json
  sm_progress :: "json option"

text \<open>
  The collaborators of a listener: the agent service (its calls return the dumped result
  or raise), the optional job executor, and the publish call of the service's store
  client, which raises or accepts the message.
\<close>

record listener =
  channel :: string
  filter_mode :: string
  run_agent :: "json \<Rightarrow> json \<Rightarrow> json \<Rightarrow> exn + pydict"
  broadcast_to_agents :: "json \<Rightarrow> json \<Rightarrow> exn + pydict list"
  run_chain :: "json \<Rightarrow> pydict \<Rightarrow> exn + pydict"
  agent_configs :: "string list"
  chain_configs :: "string list"
  job_executor :: "(json \<Rightarrow> json \<Rightarrow> json \<Rightarrow> json \<Rightarrow> exn + pydict) option"
  redis_publish :: "string \<Rightarrow> status_message \<Rightarrow> exn option"

datatype log_level = DEBUG | INFO | WARNING | ERROR

datatype call =
    RunAgent json json json
  | BroadcastToAgents json json
  | RunChain json pydict
  | ExecuteAgentTask json json json json

text \<open>
  What a listener changes: the messages accepted by the status channel, the log (level,
  text without the emoji, interpolated value), the collaborator calls made, the keys of
  the service's agent cache and the \<^verbatim>\<open>running\<close> flag.
\<close>

record rstate =
  published :: "(string \<times> status_message) list"
  logged :: "(log_level \<times> string \<times> json) list"
  calls :: "call list"
  agents :: "string list"
  running :: bool

definition log_msg :: "log_level \<Rightarrow> string \<Rightarrow> json \<Rightarrow> rstate \<Rightarrow> rstate" where
  "log_msg lv txt v s = s\<lparr>logged := logged s @ [(lv, txt, v)]\<rparr>"

definition record_call :: "call \<Rightarrow> rstate \<Rightarrow> rstate" where
  "record_call c s = s\<lparr>calls := calls s @ [c]\<rparr>"

section \<open>Command router: publishing a result\<close>

text \<open>
  \<^verbatim>\<open>"progress" in v\<close>: key membership in a dictionary, element membership in a list,
  substring test in a string, \<^verbatim>\<open>TypeError\<close> otherwise.
\<close>

definition progress_in :: "json \<Rightarrow> exn + bool" where
  "progress_in v =
     (case v of
        JDict d \<Rightarrow> Inr (dict_contains d ''progress'')
      | JList xs \<Rightarrow> Inr (JStr ''progress'' \<in> set xs)
      | JStr s \<Rightarrow> Inr (sublist ''progress'' s)
      | _ \<Rightarrow> Inl (TypeError ''argument is not iterable''))"

text \<open>\<^verbatim>\<open>v["progress"]\<close>: only a dictionary takes a string subscript.\<close>

definition progress_of :: "json \<Rightarrow> exn + json" where
  "progress_of v =
     (case v of
        JDict d \<Rightarrow> dict_subscript d ''progress''
      | _ \<Rightarrow> Inl (TypeError ''indices must be integers''))"

text \<open>The dictionary \<^verbatim>\<open>status_message\<close> of \<^verbatim>\<open>_publish_result\<close>, lines 304 to 316.\<close>

definition build_status_message :: "pydict \<Rightarrow> string \<Rightarrow> exn + status_message" where
  "build_status_message result level =
     (let m = \<lparr>sm_agent_name = dict_get_default result ''agent_name'' (JStr ''unknown''),
               sm_task_id = dict_get_default result ''task_id'' (JStr ''''),
               sm_type = (if truthy (dict_get result ''error'') then ''error'' else ''progress''),
               sm_level = level,
               sm_message = py_or (dict_get result ''output'')
                              (py_or (dict_get result ''error'')
                                 (dict_get_default result ''message'' (JStr ''''))),
               sm_metadata = dict_get_default result ''metadata'' (JDict []),
               sm_progress = None\<rparr>
      in case progress_in (dict_get_default result ''metadata'' (JDict [])) of
           Inl e \<Rightarrow> Inl e
         | Inr False \<Rightarrow> Inr m
         | Inr True \<Rightarrow>
             (case dict_subscript result ''metadata'' of
                Inl e \<Rightarrow> Inl e
              | Inr md \<Rightarrow>
                  (case progress_of md of
                     Inl e \<Rightarrow> Inl e
                   | Inr p \<Rightarrow> Inr (m\<lparr>sm_progress := Some p\<rparr>))))"

text \<open>
  The body of the \<^verbatim>\<open>try\<close> of \<^verbatim>\<open>_publish_result\<close>. A function of the router returns
  the exception that leaves it, if any, and the state reached.
\<close>

definition publish_result_body ::
  "listener \<Rightarrow> pydict \<Rightarrow> string \<Rightarrow> rstate \<Rightarrow> exn option \<times> rstate" where
  "publish_result_body L result level s =
     (case should_publish (filter_mode L) level of
        Inl e \<Rightarrow> (Some e, s)
      | Inr False \<Rightarrow> (None, log_msg DEBUG ''Filtered message'' (JStr level) s)
      | Inr True \<Rightarrow>
          (case build_status_message result level of
             Inl e \<Rightarrow> (Some e, s)
           | Inr m \<Rightarrow>
               (case redis_publish L (channel L @ '':status'') m of
                  Some e \<Rightarrow> (Some e, s)
                | None \<Rightarrow>
                    (None, log_msg INFO ''Published'' (JStr level)
                             (s\<lparr>published := published s @ [(channel L @ '':status'', m)]\<rparr>)))))"

text \<open>\<^verbatim>\<open>_publish_result\<close>: the \<^verbatim>\<open>except Exception\<close> logs and returns.\<close>

definition publish_result ::
  "listener \<Rightarrow> pydict \<Rightarrow> string \<Rightarrow> rstate \<Rightarrow> exn option \<times> rstate" where
  "publish_result L result level s =
     (case publish_result_body L result level s of
        (Some e, s') \<Rightarrow> (None, log_msg ERROR ''Failed to publish result'' (JStr (exn_str e)) s')
      | (None, s') \<Rightarrow> (None, s'))"

section \<open>Command router: the two dispatch families\<close>

text \<open>
  \<^verbatim>\<open>self.agent_service.agents.pop(agent_name, None)\<close>: the cache is keyed by agent
  name; a list or a dictionary is not hashable and raises \<^verbatim>\<open>TypeError\<close>.
\<close>

definition agents_pop :: "json \<Rightarrow> string list \<Rightarrow> exn + string list" where
  "agents_pop k ks =
     (case k of
        JList _ \<Rightarrow> Inl (TypeError ''unhashable type: list'')
      | JDict _ \<Rightarrow> Inl (TypeError ''unhashable type: dict'')
      | JStr n \<Rightarrow> Inr (removeAll n ks)
      | _ \<Rightarrow> Inr ks)"

text \<open>The body of the \<^verbatim>\<open>try\<close> of \<^verbatim>\<open>_handle_agent_command\<close>, lines 155 to 235.\<close>

definition handle_agent_command_body ::
  "listener \<Rightarrow> K0mmand3rMessage \<Rightarrow> json \<Rightarrow> rstate \<Rightarrow> exn option \<times> rstate" where
  "handle_agent_command_body L message action s =
     (if action = AgentAction_RUN \<or> action = AgentAction_CREATE then
        (let agent_name = py_or (dict_get (params message) ''name'')
                            (dict_get (params message) ''agent'');
             input_text = py_or (dict_get (params message) ''input'')
                            (py_or (content message) (JStr ''''));
             model = dict_get (params message) ''model''
         in if \<not> truthy agent_name
            then (None, log_msg ERROR ''Missing agent name'' JNull s)
            else (case run_agent L agent_name input_text model of
                    Inl e \<Rightarrow> (Some e, record_call (RunAgent agent_name input_text model) s)
                  | Inr result \<Rightarrow>
                      publish_result L result ''info''
                        (record_call (RunAgent agent_name input_text model) s)))
      else if action = AgentAction_BROADCAST then
        (let broadcast_message = py_or (dict_get (params message) ''message'')
                                   (py_or (content message) (JStr ''''));
             from_agent = dict_get (params message) ''from''
         in case broadcast_to_agents L broadcast_message from_agent of
              Inl e \<Rightarrow> (Some e, record_call (BroadcastToAgents broadcast_message from_agent) s)
            | Inr results \<Rightarrow>
                publish_result L
                  [(''action'', JStr ''broadcast''), (''results'', JList (map JDict results))]
                  ''info''
                  (record_call (BroadcastToAgents broadcast_message from_agent) s))
      else if action = AgentAction_STATUS then
        publish_result L
          [(''available_agents'', JList (map JStr (agent_configs L))),
           (''active_agents'', JList (map JStr (agents s)))]
          ''info'' s
      else if action = AgentAction_DELETE then
        (let agent_name = dict_get (params message) ''name''
         in if truthy agent_name
            then (case agents_pop agent_name (agents s) of
                    Inl e \<Rightarrow> (Some e, s)
                  | Inr ks \<Rightarrow> (None, log_msg INFO ''Deleted agent'' agent_name (s\<lparr>agents := ks\<rparr>)))
            else (None, s))
      else if action = JStr ''run-job'' then
        (case job_executor L of
           None \<Rightarrow>
             publish_result L [(''error'', JStr ''Job executor not available'')] ''info''
               (log_msg ERROR ''Job executor not initialized'' JNull s)
         | Some execute_agent_task \<Rightarrow>
             (let agent_type = dict_get (params message) ''agent_type'';
                  prompt = dict_get_default (params message) ''prompt'' (JStr '''');
                  context_files = dict_get_default (params message) ''context_files'' (JList []);
                  timeout_ms = dict_get (params message) ''timeout_ms''
              in if \<not> truthy agent_type
                 then (None, log_msg ERROR ''Missing agent_type for job execution'' JNull s)
                 else (case execute_agent_task agent_type prompt context_files timeout_ms of
                         Inl e \<Rightarrow>
                           (Some e,
                            record_call
                              (ExecuteAgentTask agent_type prompt context_files timeout_ms) s)
                       | Inr result \<Rightarrow>
                           publish_result L result ''info''
                             (record_call
                                (ExecuteAgentTask agent_type prompt context_files timeout_ms) s))))
      else (None, log_msg WARNING ''Unknown agent action'' action s))"

text \<open>
  \<^verbatim>\<open>_handle_agent_command\<close>: the action defaults to \<^verbatim>\<open>run\<close>; the handler of the
  \<^verbatim>\<open>try\<close> publishes \<^verbatim>\<open>{"error": str(e)}\<close> with \<^verbatim>\<open>level="error"\<close>.
\<close>

definition handle_agent_command ::
  "listener \<Rightarrow> K0mmand3rMessage \<Rightarrow> rstate \<Rightarrow> exn option \<times> rstate" where
  "handle_agent_command L message s =
     (case handle_agent_command_body L message
             (dict_get_default (params message) ''action'' (JStr ''run'')) s of
        (Some e, s') \<Rightarrow>
          publish_result L [(''error'', JStr (exn_str e))] ''error''
            (log_msg ERROR ''Agent command failed'' (JStr (exn_str e)) s')
      | (None, s') \<Rightarrow> (None, s'))"

text \<open>The body of the \<^verbatim>\<open>try\<close> of \<^verbatim>\<open>_handle_chain_command\<close>, lines 252 to 281.\<close>

definition handle_chain_command_body ::
  "listener \<Rightarrow> K0mmand3rMessage \<Rightarrow> json \<Rightarrow> rstate \<Rightarrow> exn option \<times> rstate" where
  "handle_chain_command_body L message action s =
     (if action = ChainAction_RUN then
        (let chain_name = py_or (dict_get (params message) ''name'')
                            (dict_get (params message) ''chain'')
         in if \<not> truthy chain_name
            then (None, log_msg ERROR ''Missing chain name'' JNull s)
            else (let chain_params =
                        filter (\<lambda>(k, v). k \<notin> set [''action'', ''name'', ''chain''])
                          (params message)
                  in case run_chain L chain_name chain_params of
                       Inl e \<Rightarrow> (Some e, record_call (RunChain chain_name chain_params) s)
                     | Inr result \<Rightarrow>
                         publish_result L result ''info''
                           (record_call (RunChain chain_name chain_params) s)))
      else if action = ChainAction_STATUS then
        publish_result L [(''available_chains'', JList (map JStr (chain_configs L)))] ''info'' s
      else (None, log_msg WARNING ''Unknown chain action'' action s))"

text \<open>
  \<^verbatim>\<open>_handle_chain_command\<close>: the handler of the \<^verbatim>\<open>try\<close> calls
  \<^verbatim>\<open>self._publish_result({"error": str(e)})\<close>, so the level is the default \<^verbatim>\<open>"info"\<close>.
\<close>

definition handle_chain_command ::
  "listener \<Rightarrow> K0mmand3rMessage \<Rightarrow> rstate \<Rightarrow> exn option \<times> rstate" where
  "handle_chain_command L message s =
     (case handle_chain_command_body L message
             (dict_get_default (params message) ''action'' (JStr ''run'')) s of
        (Some e, s') \<Rightarrow>
          publish_result L [(''error'', JStr (exn_str e))] ''info''
            (log_msg ERROR ''Chain command failed'' (JStr (exn_str e)) s')
      | (None, s') \<Rightarrow> (None, s'))"

section \<open>Command router: decoding and routing a message\<close>

text \<open>
  The data of a pub/sub message, by what \<^verbatim>\<open>data.decode("utf-8")\<close> and
  \<^verbatim>\<open>json.loads(data)\<close> do with it: the bytes are not UTF-8, the text is not JSON, or
  the text is the JSON of a value.
\<close>

datatype payload = BadBytes string | BadJson string | Json json

text \<open>Lines 132 to 137 of \<^verbatim>\<open>_handle_message\<close>.\<close>

definition route :: "listener \<Rightarrow> K0mmand3rMessage \<Rightarrow> rstate \<Rightarrow> exn option \<times> rstate" where
  "route L message s =
     (if verb message \<in> set [''agent'', ''dispatch'', ''status'', ''capability'', ''complete'',
                               ''message'']
      then handle_agent_command L message s
      else if verb message = ''chain'' then handle_chain_command L message s
      else (None, log_msg WARNING ''Unknown verb'' (JStr (verb message)) s))"

text \<open>
  Lines 125 to 127: \<^verbatim>\<open>message_dict["params"]["action"] = VERB_MAP[message.verb]\<close>, after
  an empty params has been put in when the key is absent.
\<close>

definition set_action :: "pydict \<Rightarrow> string \<Rightarrow> exn + pydict" where
  "set_action message_dict v =
     (let md = (if \<not> dict_contains message_dict ''params''
                then AList.update ''params'' (JDict []) message_dict else message_dict)
      in case dict_subscript VERB_MAP v of
           Inl e \<Rightarrow> Inl e
         | Inr a \<Rightarrow>
             (case dict_subscript md ''params'' of
                Inl e \<Rightarrow> Inl e
              | Inr (JDict p) \<Rightarrow>
                  Inr (AList.update ''params'' (JDict (AList.update ''action'' (JStr a) p)) md)
              | Inr _ \<Rightarrow> Inl (TypeError ''object does not support item assignment'')))"

text \<open>The body of the \<^verbatim>\<open>try\<close> of \<^verbatim>\<open>_handle_message\<close>, lines 114 to 137.\<close>

definition handle_message_body :: "listener \<Rightarrow> payload \<Rightarrow> rstate \<Rightarrow> exn option \<times> rstate" where
  "handle_message_body L data s =
     (case data of
        BadBytes m \<Rightarrow> (Some (UnicodeDecodeError m), s)
      | BadJson m \<Rightarrow> (Some (JSONDecodeError m), s)
      | Json (JDict message_dict) \<Rightarrow>
          (case K0mmand3rMessage_init message_dict of
             Inl e \<Rightarrow> (Some e, s)
           | Inr message \<Rightarrow>
               (let s1 = log_msg INFO ''Received command''
                           (JList [JStr (verb message), agent_id message]) s
                in if dict_contains VERB_MAP (verb message)
                   then (case set_action message_dict (verb message) of
                           Inl e \<Rightarrow> (Some e, s1)
                         | Inr md \<Rightarrow>
                             (case K0mmand3rMessage_init md of
                                Inl e \<Rightarrow> (Some e, s1)
                              | Inr message' \<Rightarrow>
                                  route L message'
                                    (log_msg DEBUG ''Mapped verb to action''
                                       (JStr (verb message')) s1)))
                   else route L message s1))
      | Json _ \<Rightarrow> (Some (TypeError ''argument after ** must be a mapping''), s))"

text \<open>\<^verbatim>\<open>_handle_message\<close>: both \<^verbatim>\<open>except\<close> clauses log and return.\<close>

definition handle_message :: "listener \<Rightarrow> payload \<Rightarrow> rstate \<Rightarrow> exn option \<times> rstate" where
  "handle_message L data s =
     (case handle_message_body L data s of
        (Some (JSONDecodeError m), s') \<Rightarrow>
          (None, log_msg ERROR ''Invalid JSON message'' (JStr m) s')
      | (Some e, s') \<Rightarrow> (None, log_msg ERROR ''Error handling message'' (JStr (exn_str e)) s')
      | (None, s') \<Rightarrow> (None, s'))"

text \<open>
  The loop of \<^verbatim>\<open>start\<close> over the messages that \<^verbatim>\<open>pubsub.listen()\<close> delivers, each with
  its type and data. It returns the exception that ends it, if any, the state, and the
  messages it did not consume.
\<close>

fun listen_loop ::
  "listener \<Rightarrow> (string \<times> payload) list \<Rightarrow> rstate \<Rightarrow> exn option \<times> rstate \<times> (string \<times> payload) list"
where
  "listen_loop L [] s = (None, s, [])"
| "listen_loop L ((ty, data) # rest) s =
     (if \<not> running s then (None, s, (ty, data) # rest)
      else if ty \<noteq> ''message'' then listen_loop L rest s
      else (case handle_message L data s of
              (Some e, s') \<Rightarrow> (Some e, s', rest)
            | (None, s') \<Rightarrow> listen_loop L rest s'))"

text \<open>\<^verbatim>\<open>start\<close>: an exception of the loop is logged, and the listener stops.\<close>

definition start ::
  "listener \<Rightarrow> (string \<times> payload) list \<Rightarrow> rstate \<Rightarrow> rstate \<times> (string \<times> payload) list" where
  "start L msgs s =
     (case listen_loop L msgs
             (log_msg INFO ''Subscribed'' (JStr (channel L)) (s\<lparr>running := True\<rparr>)) of
        (Some e, s', rest) \<Rightarrow>
          (log_msg INFO ''Listener stopped'' JNull
             (log_msg ERROR ''Listener error'' (JStr (exn_str e)) s'), rest)
      | (None, s', rest) \<Rightarrow> (log_msg INFO ''Listener stopped'' JNull s', rest))"

section \<open>Command router: a concrete listener\<close>

text \<open>
  A listener on channel \<^verbatim>\<open>k0mmand3r\<close> with the given filter mode, whose agent service
  answers every agent run with a successful result, fails every chain run, and whose
  status channel accepts every message; and the state of a listener that has just been
  started.
\<close>

definition demo_listener :: "string \<Rightarrow> listener" where
  "demo_listener mode =
     \<lparr>channel = ''k0mmand3r'',
      filter_mode = mode,
      run_agent = (\<lambda>agent_name input_text model.
         Inr [(''agent_name'', agent_name), (''success'', JBool True),
              (''output'', JStr ''done''), (''error'', JNull), (''metadata'', JDict [])]),
      broadcast_to_agents = (\<lambda>message from_agent. Inr []),
      run_chain = (\<lambda>chain_name chain_params. Inl (RuntimeError ''chain failed'')),
      agent_configs = [''researcher''],
      chain_configs = [''summarize''],
      job_executor = None,
      redis_publish = (\<lambda>status_channel m. None)\<rparr>"

definition failing_listener :: "string \<Rightarrow> listener" where
  "failing_listener mode =
     (demo_listener mode)\<lparr>run_agent :=
        (\<lambda>agent_name input_text model. Inl (RuntimeError ''agent failed''))\<rparr>"

definition idle :: rstate where
  "idle = \<lparr>published = [], logged = [], calls = [], agents = [], running = True\<rparr>"

text \<open>The inbound message \<^verbatim>\<open>{"verb":"dispatch","params":{"name":"researcher","input":"hi"}}\<close>.\<close>

definition dispatch_researcher :: payload where
  "dispatch_researcher =
     Json (JDict [(''verb'', JStr ''dispatch''),
                  (''params'', JDict [(''name'', JStr ''researcher''), (''input'', JStr ''hi'')])])"

text \<open>The inbound message \<^verbatim>\<open>{"verb":"chain","params":{"name":"summarize"}}\<close>.\<close>

definition chain_summarize :: payload where
  "chain_summarize =
     Json (JDict [(''verb'', JStr ''chain''), (''params'', JDict [(''name'', JStr ''summarize'')])])"

section \<open>Job functions: crawling one URL\<close>

text \<open>
  A collaborator of the job layer returns a \<^verbatim>\<open>Result\<close>: \<^verbatim>\<open>Success(value)\<close> or
  \<^verbatim>\<open>Failure(error)\<close>. The crawl jobs only use the text of the error.
\<close>

datatype ('a, 'e) result = Success 'a | Failure 'e

text \<open>What the parser registry returns on success.\<close>

record parsed_data =
  pd_title :: json
  pd_content :: json
  pd_metadata :: json
  pd_tags :: json

text \<open>
  The collaborators of the crawl jobs of \<^verbatim>\<open>jobs.py\<close>: the job that
  \<^verbatim>\<open>get_current_job()\<close> returns (its id, or none outside a worker), the crawler's
  fetch and recursive crawl (which may read the crawler's own \<open>max_depth\<close>, their first
  argument), the parser registry, the content processor registry and the tracker.
\<close>

record crawl_env =
  current_job :: "string option"
  crawl_url :: "int \<Rightarrow> string \<Rightarrow> int \<Rightarrow> exn + (pydict, string) result"
  crawl_recursive :: "int \<Rightarrow> string \<Rightarrow> int \<Rightarrow> exn + pydict list"
  parse_content :: "json \<Rightarrow> json \<Rightarrow> json \<Rightarrow> exn + (parsed_data, string) result"
  process_content :: "string \<Rightarrow> string \<Rightarrow> string \<Rightarrow> exn + (string, string) result"
  add_to_queue :: "json list \<Rightarrow> int \<Rightarrow> exn + (int, string) result"
  cache_content :: "string \<Rightarrow> string \<Rightarrow> string \<Rightarrow> exn + (bool, string) result"

text \<open>
  What a job leaves behind: in the process, the attribute \<^verbatim>\<open>max_depth\<close> of the
  module-level \<^verbatim>\<open>crawler\<close>; in the coordination store, the calls of
  \<^verbatim>\<open>tracker.add_to_queue\<close>, each with the elements of the set of links and the depth,
  and the calls of \<^verbatim>\<open>tracker.cache_content\<close>.
\<close>

record jstate =
  crawler_max_depth :: int
  queued :: "(json list \<times> int) list"
  cached :: "(string \<times> string \<times> string) list"

definition job_id_of :: "string option \<Rightarrow> string" where
  "job_id_of job = (case job of Some i \<Rightarrow> i | None \<Rightarrow> ''local'')"

text \<open>
  \<^verbatim>\<open>set(child_links)\<close>: the elements of a list, the characters of a string, the keys of
  a dictionary; a list or dictionary element is not hashable, any other value is not
  iterable. The elements are kept in order, duplicates removed.
\<close>

definition hashable :: "json \<Rightarrow> bool" where
  "hashable v = (case v of JList _ \<Rightarrow> False | JDict _ \<Rightarrow> False | _ \<Rightarrow> True)"

definition py_set :: "json \<Rightarrow> exn + json list" where
  "py_set v =
     (case v of
        JList xs \<Rightarrow>
          (if list_all hashable xs then Inr (remdups xs)
           else Inl (TypeError ''unhashable type''))
      | JStr s \<Rightarrow> Inr (remdups (map (\<lambda>c. JStr [c]) s))
      | JDict d \<Rightarrow> Inr (remdups (map (\<lambda>(k, v). JStr k) d))
      | _ \<Rightarrow> Inl (TypeError ''object is not iterable''))"

text \<open>\<^verbatim>\<open>d.update(e)\<close> on dictionaries.\<close>

definition dict_update_all :: "pydict \<Rightarrow> pydict \<Rightarrow> pydict" where
  "dict_update_all e d = fold (\<lambda>(k, v). AList.update k v) e d"

text \<open>Lines 44 to 49: the fields a successful parse adds to the crawl data.\<close>

definition apply_parsed :: "(parsed_data, string) result \<Rightarrow> pydict \<Rightarrow> pydict" where
  "apply_parsed parser_result data =
     (case parser_result of
        Success parsed \<Rightarrow>
          dict_update_all
            [(''parsed_title'', pd_title parsed), (''parsed_content'', pd_content parsed),
             (''parsed_metadata'', pd_metadata parsed), (''parsed_tags'', pd_tags parsed)] data
      | Failure error \<Rightarrow> data)"

definition crawl_success :: "string \<Rightarrow> int \<Rightarrow> pydict \<Rightarrow> string \<Rightarrow> pydict" where
  "crawl_success url depth data job_id =
     [(''status'', JStr ''success''), (''url'', JStr url), (''depth'', JInt depth),
      (''data'', JDict data), (''job_id'', JStr job_id)]"

definition crawl_error :: "string \<Rightarrow> int \<Rightarrow> string \<Rightarrow> string \<Rightarrow> pydict" where
  "crawl_error url depth err job_id =
     [(''status'', JStr ''error''), (''url'', JStr url), (''depth'', JInt depth),
      (''error'', JStr err), (''job_id'', JStr job_id)]"

text \<open>
  The body of the \<^verbatim>\<open>try\<close> of \<^verbatim>\<open>crawl_url_job\<close>, lines 23 to 81. A job function
  returns the exception that leaves it or the dictionary it returns, and the state.
\<close>

definition crawl_url_job_body ::
  "crawl_env \<Rightarrow> string \<Rightarrow> int \<Rightarrow> int option \<Rightarrow> string \<Rightarrow> jstate \<Rightarrow> (exn + pydict) \<times> jstate"
where
  "crawl_url_job_body w url depth max_depth job_id st =
     (let st1 = (case max_depth of Some m \<Rightarrow> st\<lparr>crawler_max_depth := m\<rparr> | None \<Rightarrow> st)
      in case crawl_url w (crawler_max_depth st1) url depth of
           Inl e \<Rightarrow> (Inl e, st1)
         | Inr (Failure error) \<Rightarrow> (Inr (crawl_error url depth error job_id), st1)
         | Inr (Success data0) \<Rightarrow>
             (case parse_content w (JStr url) (dict_get_default data0 ''content'' (JStr ''''))
                     (dict_get_default data0 ''content_type'' (JStr ''text/html'')) of
                Inl e \<Rightarrow> (Inl e, st1)
              | Inr parser_result \<Rightarrow>
                  (let data = apply_parsed parser_result data0
                   in if depth < crawler_max_depth st1
                      then (let child_links = dict_get_default data ''links'' (JList [])
                            in if truthy child_links
                               then (case py_set child_links of
                                       Inl e \<Rightarrow> (Inl e, st1)
                                     | Inr links \<Rightarrow>
                                         (case add_to_queue w links (depth + 1) of
                                            Inl e \<Rightarrow>
                                              (Inl e,
                                               st1\<lparr>queued := queued st1 @ [(links, depth + 1)]\<rparr>)
                                          | Inr queued_result \<Rightarrow>
                                              (Inr (crawl_success url depth data job_id),
                                               st1\<lparr>queued := queued st1 @ [(links, depth + 1)]\<rparr>)))
                               else (Inr (crawl_success url depth data job_id), st1))
                      else (Inr (crawl_success url depth data job_id), st1))))"

text \<open>\<^verbatim>\<open>crawl_url_job\<close>: the \<^verbatim>\<open>except Exception\<close> returns the error dictionary.\<close>

definition crawl_url_job ::
  "crawl_env \<Rightarrow> string \<Rightarrow> int \<Rightarrow> int option \<Rightarrow> jstate \<Rightarrow> (exn + pydict) \<times> jstate" where
  "crawl_url_job w url depth max_depth st =
     (case crawl_url_job_body w url depth max_depth (job_id_of (current_job w)) st of
        (Inl e, st') \<Rightarrow>
          (Inr (crawl_error url depth (exn_str e) (job_id_of (current_job w))), st')
      | (Inr r, st') \<Rightarrow> (Inr r, st'))"

section \<open>Job functions: digest and binary content\<close>

text \<open>
  The loop of \<^verbatim>\<open>digest_url_job\<close>, lines 106 to 125, over the results of the recursive
  crawl; \<^verbatim>\<open>data["url"]\<close> raises \<^verbatim>\<open>KeyError\<close> on a result without a url.
\<close>

fun digest_results :: "crawl_env \<Rightarrow> pydict list \<Rightarrow> pydict list \<Rightarrow> exn + pydict list" where
  "digest_results w [] processed_results = Inr processed_results"
| "digest_results w (data # results) processed_results =
     (case dict_subscript data ''url'' of
        Inl e \<Rightarrow> Inl e
      | Inr u \<Rightarrow>
          (case parse_content w u (dict_get_default data ''content'' (JStr ''''))
                  (dict_get_default data ''content_type'' (JStr ''text/html'')) of
             Inl e \<Rightarrow> Inl e
           | Inr parser_result \<Rightarrow>
               digest_results w results (processed_results @ [apply_parsed parser_result data])))"

definition digest_url_job ::
  "crawl_env \<Rightarrow> string \<Rightarrow> int \<Rightarrow> jstate \<Rightarrow> (exn + pydict) \<times> jstate" where
  "digest_url_job w url depth st =
     (case (case crawl_recursive w (crawler_max_depth st) url depth of
              Inl e \<Rightarrow> Inl e
            | Inr results \<Rightarrow> digest_results w results []) of
        Inr processed_results \<Rightarrow>
          (Inr [(''status'', JStr ''success''), (''start_url'', JStr url),
                (''max_depth'', JInt depth),
                (''results'', JList (map JDict processed_results)),
                (''total_pages'', JInt (int (length processed_results))),
                (''job_id'', JStr (job_id_of (current_job w)))], st)
      | Inl e \<Rightarrow>
          (Inr [(''status'', JStr ''error''), (''start_url'', JStr url),
                (''max_depth'', JInt depth), (''error'', JStr (exn_str e)),
                (''job_id'', JStr (job_id_of (current_job w)))], st))"

text \<open>\<^verbatim>\<open>process_binary_content_job\<close>; the content is the byte string \<open>content_bytes\<close>.\<close>

definition binary_error :: "string \<Rightarrow> string \<Rightarrow> string \<Rightarrow> string \<Rightarrow> pydict" where
  "binary_error url content_type err job_id =
     [(''status'', JStr ''error''), (''url'', JStr url), (''content_type'', JStr content_type),
      (''error'', JStr err), (''job_id'', JStr job_id)]"

definition process_binary_content_job_body ::
  "crawl_env \<Rightarrow> string \<Rightarrow> string \<Rightarrow> string \<Rightarrow> string \<Rightarrow> jstate \<Rightarrow> (exn + pydict) \<times> jstate"
where
  "process_binary_content_job_body w url content_bytes content_type job_id st =
     (case process_content w content_bytes content_type url of
        Inl e \<Rightarrow> (Inl e, st)
      | Inr (Failure error) \<Rightarrow> (Inr (binary_error url content_type error job_id), st)
      | Inr (Success processed_text) \<Rightarrow>
          (case cache_content w url processed_text ''text/markdown'' of
             Inl e \<Rightarrow>
               (Inl e, st\<lparr>cached := cached st @ [(url, processed_text, ''text/markdown'')]\<rparr>)
           | Inr cache_result \<Rightarrow>
               (Inr [(''status'', JStr ''success''), (''url'', JStr url),
                     (''content_type'', JStr content_type),
                     (''processed_content'', JStr processed_text),
                     (''content_size'', JInt (int (length content_bytes))),
                     (''job_id'', JStr job_id)],
                st\<lparr>cached := cached st @ [(url, processed_text, ''text/markdown'')]\<rparr>)))"

definition process_binary_content_job ::
  "crawl_env \<Rightarrow> string \<Rightarrow> string \<Rightarrow> string \<Rightarrow> jstate \<Rightarrow> (exn + pydict) \<times> jstate" where
  "process_binary_content_job w url content_bytes content_type st =
     (case process_binary_content_job_body w url content_bytes content_type
             (job_id_of (current_job w)) st of
        (Inl e, st') \<Rightarrow>
          (Inr (binary_error url content_type (exn_str e) (job_id_of (current_job w))), st')
      | (Inr r, st') \<Rightarrow> (Inr r, st'))"

text \<open>
  A crawler environment whose every page has the single link \<^verbatim>\<open>https://a.com/next\<close>,
  and a fresh worker process whose crawler has the given \<open>max_depth\<close>.
\<close>

definition demo_crawl_env :: crawl_env where
  "demo_crawl_env =
     \<lparr>current_job = None,
      crawl_url = (\<lambda>crawler_depth url depth.
         Inr (Success [(''url'', JStr url), (''content'', JStr ''<html/>''),
                       (''links'', JList [JStr ''https://a.com/next''])])),
      crawl_recursive = (\<lambda>crawler_depth url depth. Inr []),
      parse_content = (\<lambda>url content content_type. Inr (Failure ''no parser'')),
      process_content = (\<lambda>content content_type url. Inr (Failure ''no processor'')),
      add_to_queue = (\<lambda>links depth. Inr (Success (int (length links)))),
      cache_content = (\<lambda>url content content_type. Inr (Success True))\<rparr>"

definition fresh_process :: "int \<Rightarrow> jstate" where
  "fresh_process d = \<lparr>crawler_max_depth = d, queued = [], cached = []\<rparr>"

section \<open>Agent jobs: execution context and approval\<close>

text \<open>\<^verbatim>\<open>AgentStatus\<close>, \<^verbatim>\<open>AgentExecutionContext\<close> and \<^verbatim>\<open>AgentConfig\<close> of
  \<^verbatim>\<open>adk_integration.py\<close>. Times are microseconds; their ISO text is not modelled. The
  fields of a configuration hold whatever the dictionary held; \<open>cfg_temperature\<close> is
  \<open>None\<close> for the default \<^verbatim>\<open>0.7\<close>.\<close>

datatype AgentStatus = INITIALIZING | RUNNING | WAITING_APPROVAL | COMPLETED | FAILED | CANCELLED

fun AgentStatus_value :: "AgentStatus \<Rightarrow> string" where
  "AgentStatus_value INITIALIZING = ''initializing''"
| "AgentStatus_value RUNNING = ''running''"
| "AgentStatus_value WAITING_APPROVAL = ''waiting_approval''"
| "AgentStatus_value COMPLETED = ''completed''"
| "AgentStatus_value FAILED = ''failed''"
| "AgentStatus_value CANCELLED = ''cancelled''"

record AgentExecutionContext =
  ctx_agent_id :: string
  ctx_job_id :: string
  ctx_session_id :: json
  ctx_parent_agent_id :: json
  ctx_status :: AgentStatus
  ctx_start_time :: int
  ctx_end_time :: "int option"
  ctx_metadata :: pydict

definition to_dict :: "AgentExecutionContext \<Rightarrow> pydict" where
  "to_dict c =
     [(''agent_id'', JStr (ctx_agent_id c)),
      (''job_id'', JStr (ctx_job_id c)),
      (''session_id'', ctx_session_id c),
      (''parent_agent_id'', ctx_parent_agent_id c),
      (''status'', JStr (AgentStatus_value (ctx_status c))),
      (''start_time'', JInt (ctx_start_time c)),
      (''end_time'', (case ctx_end_time c of Some t \<Rightarrow> JInt t | None \<Rightarrow> JNull)),
      (''metadata'', JDict (ctx_metadata c))]"

record AgentConfig =
  cfg_name :: json
  cfg_description :: json
  cfg_model_name :: json
  cfg_temperature :: "json option"
  cfg_max_tokens :: json
  cfg_tools :: json
  cfg_enable_mcp :: json
  cfg_sub_agents :: "json list"
  cfg_require_approval :: json
  cfg_approval_timeout :: json
  cfg_max_iterations :: json
  cfg_timeout :: json
  cfg_enable_rewind :: json

text \<open>
  The collaborators of the agent jobs: the current job, the constructor of
  \<^verbatim>\<open>RedisTracker\<close>, the store's \<^verbatim>\<open>setex\<close> and \<^verbatim>\<open>publish\<close>, the job queue, the clock
  and \<^verbatim>\<open>str\<close>. For the blocking pop the store is described by what happens on a key:
  whether the call raises, and when a response is pushed on the key (seconds after the
  pop starts) with what \<^verbatim>\<open>json.loads\<close> makes of it; \<open>None\<close> when nobody ever responds.
\<close>

record adk_env =
  adk_current_job :: "string option"
  RedisTracker_init :: "exn option"
  setex :: "string \<Rightarrow> int \<Rightarrow> pydict \<Rightarrow> exn option"
  approval_publish :: "string \<Rightarrow> pydict \<Rightarrow> exn option"
  brpop_error :: "string \<Rightarrow> exn option"
  response_pushed :: "string \<Rightarrow> (nat \<times> (exn + json)) option"
  get_queue :: "exn option"
  enqueue :: "pydict \<Rightarrow> string \<Rightarrow> string \<Rightarrow> exn + string"
  utcnow :: int
  str_of :: "json \<Rightarrow> string"

text \<open>
  \<^verbatim>\<open>redis.brpop(key, timeout=timeout)\<close>, the blocking pop of the store: the seconds the
  call blocks and what it returns, or \<open>None\<close> when it never returns. An element pushed
  before the timeout is returned; otherwise the call returns nothing after \<open>timeout\<close>
  seconds. A timeout of 0 means no timeout: the call blocks until an element is pushed.
  The store refuses a negative timeout.
\<close>

definition brpop ::
  "adk_env \<Rightarrow> string \<Rightarrow> int \<Rightarrow> (nat \<times> (exn + (exn + json) option)) option" where
  "brpop w key timeout =
     (case brpop_error w key of
        Some e \<Rightarrow> Some (0, Inl e)
      | None \<Rightarrow>
          (if timeout < 0 then Some (0, Inl (RuntimeError ''timeout is negative''))
           else (case response_pushed w key of
                   Some (t, data) \<Rightarrow>
                     (if timeout = 0 \<or> int t < timeout then Some (t, Inr (Some data))
                      else Some (nat timeout, Inr None))
                 | None \<Rightarrow>
                     (if timeout = 0 then None else Some (nat timeout, Inr None)))))"

text \<open>
  What the agent jobs do to the coordination store: the contexts written, the approval
  requests published, the blocking pops issued (key and timeout) and the jobs enqueued.
\<close>

record adk_store =
  contexts :: "(string \<times> int \<times> pydict) list"
  approval_requests :: "(string \<times> pydict) list"
  blocking_pops :: "(string \<times> int) list"
  enqueued :: "(pydict \<times> string \<times> string) list"

text \<open>\<^verbatim>\<open>_persist_context\<close>: the exception of \<^verbatim>\<open>setex\<close> becomes a \<^verbatim>\<open>Failure\<close>.\<close>

definition persist_context ::
  "adk_env \<Rightarrow> AgentExecutionContext \<Rightarrow> adk_store \<Rightarrow> (bool, exn) result \<times> adk_store" where
  "persist_context w c st =
     (case setex w (''adk:agent:'' @ ctx_agent_id c @ '':context'') 3600 (to_dict c) of
        Some e \<Rightarrow> (Failure e, st)
      | None \<Rightarrow>
          (Success True,
           st\<lparr>contexts := contexts st @
                 [(''adk:agent:'' @ ctx_agent_id c @ '':context'', 3600, to_dict c)]\<rparr>))"

text \<open>The decimal text of an integer, for \<^verbatim>\<open>f"Approval timeout after {timeout}s"\<close>.\<close>

fun show_nat :: "nat \<Rightarrow> string" where
  "show_nat n =
     (if n < 10 then [''0123456789'' ! n]
      else show_nat (n div 10) @ [''0123456789'' ! (n mod 10)])"

declare show_nat.simps [simp del]

definition show_int :: "int \<Rightarrow> string" where
  "show_int i = (if i < 0 then CHR ''-'' # show_nat (nat (- i)) else show_nat (nat i))"

text \<open>
  Lines 228 to 236 of \<^verbatim>\<open>_wait_for_approval\<close>: the decision on what the blocking pop
  returned.
\<close>

definition approval_decision :: "(exn + json) option \<Rightarrow> int \<Rightarrow> exn + (bool, json) result" where
  "approval_decision popped timeout =
     (case popped of
        None \<Rightarrow> Inr (Failure (JStr (''Approval timeout after '' @ show_int timeout @ ''s'')))
      | Some (Inl e) \<Rightarrow> Inl e
      | Some (Inr (JDict response)) \<Rightarrow>
          (if truthy (dict_get response ''approved'') then Inr (Success True)
           else Inr (Failure (dict_get_default response ''reason'' (JStr ''Approval denied''))))
      | Some (Inr _) \<Rightarrow> Inl (AttributeError ''object has no attribute get''))"

text \<open>
  The body of the \<^verbatim>\<open>try\<close> of \<^verbatim>\<open>_wait_for_approval\<close>, lines 211 to 236: one publish, one
  blocking pop with the caller's timeout, passed on as it is, then the decision. The
  result is the seconds the call has blocked, the outcome and the store, or \<open>None\<close>
  when the call never returns.
\<close>

definition wait_for_approval_body ::
  "adk_env \<Rightarrow> AgentExecutionContext \<Rightarrow> string \<Rightarrow> int \<Rightarrow> adk_store \<Rightarrow>
     (nat \<times> (exn + (bool, json) result) \<times> adk_store) option" where
  "wait_for_approval_body w c action timeout st =
     (let approval_channel = ''adk:agent:'' @ ctx_agent_id c @ '':approval'';
          request = [(''agent_id'', JStr (ctx_agent_id c)), (''job_id'', JStr (ctx_job_id c)),
                     (''action'', JStr action), (''timestamp'', JInt (utcnow w))]
      in case approval_publish w approval_channel request of
           Some e \<Rightarrow> Some (0, Inl e, st)
         | None \<Rightarrow>
             (let st1 = st\<lparr>approval_requests := approval_requests st @ [(approval_channel, request)]\<rparr>;
                  response_key = ''adk:agent:'' @ ctx_agent_id c @ '':approval:response'';
                  st2 = st1\<lparr>blocking_pops := blocking_pops st1 @ [(response_key, timeout)]\<rparr>
              in case brpop w response_key timeout of
                   None \<Rightarrow> None
                 | Some (blocked, Inl e) \<Rightarrow> Some (blocked, Inl e, st2)
                 | Some (blocked, Inr popped) \<Rightarrow>
                     Some (blocked, approval_decision popped timeout, st2)))"

text \<open>\<^verbatim>\<open>_wait_for_approval\<close>: an exception becomes \<^verbatim>\<open>Failure("Approval error: ...")\<close>.\<close>

definition wait_for_approval ::
  "adk_env \<Rightarrow> AgentExecutionContext \<Rightarrow> string \<Rightarrow> int \<Rightarrow> adk_store \<Rightarrow>
     (nat \<times> (exn + (bool, json) result) \<times> adk_store) option" where
  "wait_for_approval w c action timeout st =
     (case wait_for_approval_body w c action timeout st of
        None \<Rightarrow> None
      | Some (blocked, Inl e, st') \<Rightarrow>
          Some (blocked, Inr (Failure (JStr (''Approval error: '' @ exn_str e))), st')
      | Some (blocked, Inr r, st') \<Rightarrow> Some (blocked, Inr r, st'))"

section \<open>Agent jobs: running an agent\<close>

text \<open>The body of the \<^verbatim>\<open>try\<close> of \<^verbatim>\<open>execute_agent\<close>, lines 274 to 301.\<close>

definition execute_agent_body ::
  "adk_env \<Rightarrow> AgentConfig \<Rightarrow> string \<Rightarrow> AgentExecutionContext \<Rightarrow> string \<Rightarrow> adk_store \<Rightarrow>
     (exn + pydict) \<times> AgentExecutionContext \<times> adk_store" where
  "execute_agent_body w agent_config task agent_ctx job_id st =
     (let st1 = snd (persist_context w agent_ctx st);
          ctx1 = agent_ctx\<lparr>ctx_status := RUNNING\<rparr>;
          st2 = snd (persist_context w ctx1 st1);
          ctx2 = ctx1\<lparr>ctx_status := COMPLETED, ctx_end_time := Some (utcnow w)\<rparr>;
          st3 = snd (persist_context w ctx2 st2)
      in (Inr [(''status'', JStr ''success''),
               (''agent_id'', JStr (ctx_agent_id ctx2)),
               (''agent_name'', cfg_name agent_config),
               (''task'', JStr task),
               (''result'', JStr ''Agent execution requires google-adk-python package''),
               (''execution_context'', JDict (to_dict ctx2)),
               (''job_id'', JStr job_id)], ctx2, st3))"

text \<open>
  \<^verbatim>\<open>execute_agent\<close>: the context is created before the \<^verbatim>\<open>try\<close>; the
  \<^verbatim>\<open>except Exception\<close> marks it failed and returns the error dictionary.
\<close>

definition execute_agent ::
  "adk_env \<Rightarrow> AgentConfig \<Rightarrow> string \<Rightarrow> pydict option \<Rightarrow> string option \<Rightarrow> adk_store \<Rightarrow>
     (exn + pydict) \<times> adk_store" where
  "execute_agent w agent_config task context parent_agent_id st =
     (let job_id = job_id_of (adk_current_job w);
          agent_ctx = \<lparr>ctx_agent_id = str_of w (cfg_name agent_config) @ ''_'' @ job_id,
                       ctx_job_id = job_id,
                       ctx_session_id = JNull,
                       ctx_parent_agent_id =
                         (case parent_agent_id of Some i \<Rightarrow> JStr i | None \<Rightarrow> JNull),
                       ctx_status = INITIALIZING,
                       ctx_start_time = utcnow w,
                       ctx_end_time = None,
                       ctx_metadata = (case context of Some d \<Rightarrow> d | None \<Rightarrow> [])\<rparr>
      in case execute_agent_body w agent_config task agent_ctx job_id st of
           (Inr r, c', st') \<Rightarrow> (Inr r, st')
         | (Inl e, c', st') \<Rightarrow>
             (let c1 = c'\<lparr>ctx_status := FAILED, ctx_end_time := Some (utcnow w),
                          ctx_metadata := AList.update ''error'' (JStr (exn_str e))
                                            (ctx_metadata c')\<rparr>
              in (Inr [(''status'', JStr ''error''),
                       (''agent_id'', JStr (ctx_agent_id c1)),
                       (''agent_name'', cfg_name agent_config),
                       (''task'', JStr task),
                       (''error'', JStr (exn_str e)),
                       (''execution_context'', JDict (to_dict c1)),
                       (''job_id'', JStr job_id)],
                  snd (persist_context w c1 st'))))"

text \<open>
  Lines 343 to 356 of \<^verbatim>\<open>adk_agent_job\<close>: the configuration is rebuilt from the
  dictionary; \<^verbatim>\<open>agent_config_dict["name"]\<close> and \<^verbatim>\<open>agent_config_dict["description"]\<close>
  are subscripts, the other fields have defaults.
\<close>

definition AgentConfig_from_dict :: "pydict \<Rightarrow> exn + AgentConfig" where
  "AgentConfig_from_dict d =
     (case dict_subscript d ''name'' of
        Inl e \<Rightarrow> Inl e
      | Inr n \<Rightarrow>
          (case dict_subscript d ''description'' of
             Inl e \<Rightarrow> Inl e
           | Inr ds \<Rightarrow>
               Inr \<lparr>cfg_name = n,
                    cfg_description = ds,
                    cfg_model_name = dict_get_default d ''model_name'' (JStr ''gemini-2.0-flash-exp''),
                    cfg_temperature = map_of d ''temperature'',
                    cfg_max_tokens = dict_get d ''max_tokens'',
                    cfg_tools = dict_get_default d ''tools'' (JList []),
                    cfg_enable_mcp = dict_get_default d ''enable_mcp'' (JBool False),
                    cfg_sub_agents = [],
                    cfg_require_approval = dict_get_default d ''require_approval'' (JBool False),
                    cfg_approval_timeout = dict_get_default d ''approval_timeout'' (JInt 300),
                    cfg_max_iterations = dict_get_default d ''max_iterations'' (JInt 50),
                    cfg_timeout = dict_get_default d ''timeout'' (JInt 600),
                    cfg_enable_rewind = dict_get_default d ''enable_rewind'' (JBool False)\<rparr>))"

text \<open>
  \<^verbatim>\<open>adk_agent_job\<close>: the configuration is rebuilt and the runner constructed outside
  any \<^verbatim>\<open>try\<close>; only \<^verbatim>\<open>execute_agent\<close> has one.
\<close>

definition adk_agent_job ::
  "adk_env \<Rightarrow> pydict \<Rightarrow> string \<Rightarrow> pydict option \<Rightarrow> string option \<Rightarrow> adk_store \<Rightarrow>
     (exn + pydict) \<times> adk_store" where
  "adk_agent_job w agent_config_dict task context parent_agent_id st =
     (case AgentConfig_from_dict agent_config_dict of
        Inl e \<Rightarrow> (Inl e, st)
      | Inr agent_config \<Rightarrow>
          (case RedisTracker_init w of
             Some e \<Rightarrow> (Inl e, st)
           | None \<Rightarrow> execute_agent w agent_config task context parent_agent_id st))"

section \<open>Agent jobs: coordinating several agents\<close>

text \<open>The loop of the \<^verbatim>\<open>sequential\<close> strategy, lines 396 to 398.\<close>

fun run_sequential ::
  "adk_env \<Rightarrow> pydict list \<Rightarrow> string \<Rightarrow> string \<Rightarrow> json list \<Rightarrow> adk_store \<Rightarrow>
     (exn + json list) \<times> adk_store" where
  "run_sequential w [] task job_id sub_agents st = (Inr sub_agents, st)"
| "run_sequential w (sub_config # rest) task job_id sub_agents st =
     (case adk_agent_job w sub_config task None (Some job_id) st of
        (Inl e, st') \<Rightarrow> (Inl e, st')
      | (Inr sub_result, st') \<Rightarrow>
          run_sequential w rest task job_id (sub_agents @ [JDict sub_result]) st')"

text \<open>The loop of the \<^verbatim>\<open>parallel\<close> strategy, lines 405 to 416.\<close>

fun run_parallel ::
  "adk_env \<Rightarrow> pydict list \<Rightarrow> string \<Rightarrow> string \<Rightarrow> json list \<Rightarrow> adk_store \<Rightarrow>
     (exn + json list) \<times> adk_store" where
  "run_parallel w [] task job_id sub_agents st = (Inr sub_agents, st)"
| "run_parallel w (sub_config # rest) task job_id sub_agents st =
     (case enqueue w sub_config task job_id of
        Inl e \<Rightarrow> (Inl e, st)
      | Inr sub_job_id \<Rightarrow>
          (case dict_subscript sub_config ''name'' of
             Inl e \<Rightarrow> (Inl e, st\<lparr>enqueued := enqueued st @ [(sub_config, task, job_id)]\<rparr>)
           | Inr n \<Rightarrow>
               run_parallel w rest task job_id
                 (sub_agents @
                    [JDict [(''agent'', n), (''job_id'', JStr sub_job_id),
                            (''status'', JStr ''enqueued'')]])
                 (st\<lparr>enqueued := enqueued st @ [(sub_config, task, job_id)]\<rparr>)))"

text \<open>The body of the \<^verbatim>\<open>try\<close> of \<^verbatim>\<open>multi_agent_coordination_job\<close>, lines 385 to 428.\<close>

definition multi_agent_coordination_job_body ::
  "adk_env \<Rightarrow> pydict \<Rightarrow> pydict list \<Rightarrow> string \<Rightarrow> string \<Rightarrow> string \<Rightarrow> adk_store \<Rightarrow>
     (exn + pydict) \<times> adk_store" where
  "multi_agent_coordination_job_body w coordinator_config_dict sub_agent_configs task
       coordination_strategy job_id st =
     (case dict_subscript coordinator_config_dict ''name'' of
        Inl e \<Rightarrow> (Inl e, st)
      | Inr coordinator \<Rightarrow>
          (let results = (\<lambda>sub_agents.
                 [(''status'', JStr ''success''), (''strategy'', JStr coordination_strategy),
                  (''coordinator'', coordinator), (''sub_agents'', JList sub_agents),
                  (''job_id'', JStr job_id)])
           in if coordination_strategy = ''sequential'' then
                (case run_sequential w sub_agent_configs task job_id [] st of
                   (Inl e, st') \<Rightarrow> (Inl e, st')
                 | (Inr sub_agents, st') \<Rightarrow> (Inr (results sub_agents), st'))
              else if coordination_strategy = ''parallel'' then
                (case get_queue w of
                   Some e \<Rightarrow> (Inl e, st)
                 | None \<Rightarrow>
                     (case run_parallel w sub_agent_configs task job_id [] st of
                        (Inl e, st') \<Rightarrow> (Inl e, st')
                      | (Inr sub_agents, st') \<Rightarrow> (Inr (results sub_agents), st')))
              else if coordination_strategy = ''hierarchical'' then
                (case adk_agent_job w
                        (AList.update ''sub_agents'' (JList (map JDict sub_agent_configs))
                           coordinator_config_dict)
                        task None None st of
                   (Inl e, st') \<Rightarrow> (Inl e, st')
                 | (Inr coordinator_result, st') \<Rightarrow>
                     (Inr (results [] @ [(''coordinator_result'', JDict coordinator_result)]), st'))
              else (Inl (ValueError (''Unknown coordination strategy: '' @ coordination_strategy)),
                    st)))"

text \<open>\<^verbatim>\<open>multi_agent_coordination_job\<close>: the \<^verbatim>\<open>except Exception\<close> returns the error
  dictionary.\<close>

definition multi_agent_coordination_job ::
  "adk_env \<Rightarrow> pydict \<Rightarrow> pydict list \<Rightarrow> string \<Rightarrow> string \<Rightarrow> adk_store \<Rightarrow>
     (exn + pydict) \<times> adk_store" where
  "multi_agent_coordination_job w coordinator_config_dict sub_agent_configs task
       coordination_strategy st =
     (case multi_agent_coordination_job_body w coordinator_config_dict sub_agent_configs task
             coordination_strategy (job_id_of (adk_current_job w)) st of
        (Inl e, st') \<Rightarrow>
          (Inr [(''status'', JStr ''error''), (''error'', JStr (exn_str e)),
                (''job_id'', JStr (job_id_of (adk_current_job w)))], st')
      | (Inr r, st') \<Rightarrow> (Inr r, st'))"

text \<open>
  A worker outside any job whose store accepts every write and whose approval key
  receives no response, and an empty store.
\<close>

definition demo_adk_env :: adk_env where
  "demo_adk_env =
     \<lparr>adk_current_job = None,
      RedisTracker_init = None,
      setex = (\<lambda>key ttl v. None),
      approval_publish = (\<lambda>approval_channel request. None),
      brpop_error = (\<lambda>key. None),
      response_pushed = (\<lambda>key. None),
      get_queue = None,
      enqueue = (\<lambda>sub_config task parent. Inr ''sub-job''),
      utcnow = 0,
      str_of = (\<lambda>v. case v of JStr n \<Rightarrow> n | _ \<Rightarrow> ''?'')\<rparr>"

definition empty_adk_store :: adk_store where
  "empty_adk_store =
     \<lparr>contexts = [], approval_requests = [], blocking_pops = [], enqueued = []\<rparr>"

definition demo_context :: AgentExecutionContext where
  "demo_context =
     \<lparr>ctx_agent_id = ''test-agent'', ctx_job_id = ''test-job'', ctx_session_id = JNull,
      ctx_parent_agent_id = JNull, ctx_status = WAITING_APPROVAL, ctx_start_time = 0,
      ctx_end_time = None, ctx_metadata = []\<rparr>"

section \<open>Garbage collector: times, collaborators and state\<close>

text \<open>
  A \<^verbatim>\<open>datetime\<close> is naive or timezone-aware, in microseconds since the epoch. Comparing
  a naive with an aware one raises \<^verbatim>\<open>TypeError\<close>.
\<close>

datatype datetime = Naive int | Aware int

definition datetime_less :: "datetime \<Rightarrow> datetime \<Rightarrow> exn + bool" where
  "datetime_less a b =
     (case (a, b) of
        (Naive x, Naive y) \<Rightarrow> Inr (x < y)
      | (Aware x, Aware y) \<Rightarrow> Inr (x < y)
      | _ \<Rightarrow> Inl (TypeError ''cannot compare offset-naive and offset-aware datetimes''))"

definition day_us :: int where
  "day_us = 86400000000"

text \<open>\<^verbatim>\<open>datetime.min\<close> (year 1) and \<^verbatim>\<open>datetime.max\<close> (year 9999), in microseconds.\<close>

definition datetime_min :: int where
  "datetime_min = - 62135596800000000"

definition datetime_max :: int where
  "datetime_max = 253402300799999999"

text \<open>
  Line 236, \<^verbatim>\<open>cutoff_time = datetime.utcnow() - timedelta(days=max_age_days)\<close>:
  \<^verbatim>\<open>timedelta\<close> raises \<^verbatim>\<open>OverflowError\<close> beyond 999999999 days, the subtraction
  raises it when the result leaves the range of \<^verbatim>\<open>datetime\<close>.
\<close>

definition cutoff_time :: "int \<Rightarrow> int \<Rightarrow> exn + datetime" where
  "cutoff_time now max_age_days =
     (if max_age_days < - 999999999 \<or> 999999999 < max_age_days
      then Inl (OverflowError ''days must have magnitude <= 999999999'')
      else if now - max_age_days * day_us < datetime_min \<or>
              datetime_max < now - max_age_days * day_us
      then Inl (OverflowError ''date value out of range'')
      else Inr (Naive (now - max_age_days * day_us)))"

datatype registry_kind = FailedJobs | FinishedJobs

record rq_job =
  ended_at :: "datetime option"

text \<open>
  What the cleanup job changes: the keys of the store with their data, the job ids of
  the failed and the finished registry of every queue, and the queues it has reported
  as stale.
\<close>

record gc_state =
  kv :: "string \<Rightarrow> string option"
  registries :: "registry_kind \<Rightarrow> string \<Rightarrow> string list"
  stale_reported :: "(string \<times> nat) list"

text \<open>
  The collaborators of the cleanup job: the current job, the clock, the tracker's
  statistics, the store connection (\<^verbatim>\<open>scan\<close> answers a cursor with the next cursor and
  a page of keys; \<^verbatim>\<open>get\<close> and \<^verbatim>\<open>delete\<close> may raise for a key), \<^verbatim>\<open>json.loads\<close>,
  \<^verbatim>\<open>datetime.fromisoformat\<close>, the queues with their registries, \<^verbatim>\<open>Job.fetch\<close> and
  \<^verbatim>\<open>scard\<close>.
\<close>

record gc_env =
  gc_current_job :: "string option"
  gc_utcnow :: int
  get_stats :: "gc_state \<Rightarrow> exn + pydict"
  get_redis_connection :: "exn option"
  scan :: "nat \<Rightarrow> exn + nat \<times> string list"
  redis_get_error :: "string \<Rightarrow> exn option"
  redis_delete_error :: "string \<Rightarrow> exn option"
  json_loads :: "string \<Rightarrow> exn + json"
  fromisoformat :: "json \<Rightarrow> exn + datetime"
  get_all_queues :: "exn + string list"
  registry_len_error :: "string \<Rightarrow> exn option"
  get_job_ids_error :: "registry_kind \<Rightarrow> string \<Rightarrow> exn option"
  Job_fetch :: "string \<Rightarrow> exn + rq_job"
  registry_remove_error :: "registry_kind \<Rightarrow> string \<Rightarrow> string \<Rightarrow> exn option"
  scard :: "string \<Rightarrow> exn + nat"

text \<open>The dictionary \<^verbatim>\<open>cleanup_results\<close> of lines 227 to 233.\<close>

record cleanup_results =
  crawl_data_cleaned :: nat
  failed_jobs_cleaned :: nat
  finished_jobs_cleaned :: nat
  stale_queues_cleaned :: nat
  errors :: "string list"

definition no_results :: cleanup_results where
  "no_results =
     \<lparr>crawl_data_cleaned = 0, failed_jobs_cleaned = 0, finished_jobs_cleaned = 0,
      stale_queues_cleaned = 0, errors = []\<rparr>"

text \<open>
  The name \<^verbatim>\<open>redis_conn\<close> is bound inside the \<^verbatim>\<open>try\<close> of the first phase. When
  \<^verbatim>\<open>get_redis_connection()\<close> raises it stays unbound, and reading it later raises.
\<close>

definition redis_conn_unbound :: exn where
  "redis_conn_unbound = UnboundLocalError ''cannot access local variable redis_conn''"

section \<open>Garbage collector: crawl-record eviction\<close>

text \<open>
  The body of the inner \<^verbatim>\<open>try\<close>, lines 251 to 258, for one key: whether the key was
  deleted and counted, or the exception.
\<close>

definition process_key_body ::
  "gc_env \<Rightarrow> datetime \<Rightarrow> string \<Rightarrow> gc_state \<Rightarrow> (exn + bool) \<times> gc_state" where
  "process_key_body w cutoff key st =
     (case redis_get_error w key of
        Some e \<Rightarrow> (Inl e, st)
      | None \<Rightarrow>
          (case kv st key of
             None \<Rightarrow> (Inr False, st)
           | Some data \<Rightarrow>
               (if data = [] then (Inr False, st)
                else (case json_loads w data of
                        Inl e \<Rightarrow> (Inl e, st)
                      | Inr (JDict crawl_info) \<Rightarrow>
                          (case fromisoformat w
                                  (dict_get_default crawl_info ''crawled_at'' (JStr '''')) of
                             Inl e \<Rightarrow> (Inl e, st)
                           | Inr crawled_at \<Rightarrow>
                               (case datetime_less crawled_at cutoff of
                                  Inl e \<Rightarrow> (Inl e, st)
                                | Inr False \<Rightarrow> (Inr False, st)
                                | Inr True \<Rightarrow>
                                    (case redis_delete_error w key of
                                       Some e \<Rightarrow> (Inl e, st)
                                     | None \<Rightarrow> (Inr True, st\<lparr>kv := (kv st)(key := None)\<rparr>))))
                      | Inr _ \<Rightarrow> (Inl (AttributeError ''object has no attribute get''), st)))))"

text \<open>
  One round of the \<^verbatim>\<open>for key in keys\<close> loop, on the state, the local counter
  \<^verbatim>\<open>crawl_cleaned\<close> and the error list.
\<close>

definition process_key ::
  "gc_env \<Rightarrow> datetime \<Rightarrow> string \<Rightarrow> gc_state \<times> nat \<times> string list \<Rightarrow>
     gc_state \<times> nat \<times> string list" where
  "process_key w cutoff key acc =
     (case acc of
        (st, crawl_cleaned, errs) \<Rightarrow>
          (case process_key_body w cutoff key st of
             (Inl e, st') \<Rightarrow>
               (st', crawl_cleaned, errs @ [''Error processing '' @ key @ '': '' @ exn_str e])
           | (Inr True, st') \<Rightarrow> (st', crawl_cleaned + 1, errs)
           | (Inr False, st') \<Rightarrow> (st', crawl_cleaned, errs)))"

text \<open>
  The \<^verbatim>\<open>while True\<close> loop of lines 247 to 263. It ends when \<^verbatim>\<open>scan\<close> returns cursor 0
  or raises; \<open>None\<close> is a loop still running when the fuel is used up.
\<close>

fun scan_loop ::
  "nat \<Rightarrow> gc_env \<Rightarrow> datetime \<Rightarrow> nat \<Rightarrow> gc_state \<times> nat \<times> string list \<Rightarrow>
     (exn option \<times> gc_state \<times> nat \<times> string list) option" where
  "scan_loop 0 w cutoff cursor acc = None"
| "scan_loop (Suc fuel) w cutoff cursor acc =
     (case scan w cursor of
        Inl e \<Rightarrow> Some (Some e, acc)
      | Inr (cursor', keys) \<Rightarrow>
          (if cursor' = 0 then Some (None, fold (process_key w cutoff) keys acc)
           else scan_loop fuel w cutoff cursor' (fold (process_key w cutoff) keys acc)))"

text \<open>
  The first phase, lines 241 to 269: whether \<^verbatim>\<open>redis_conn\<close> got bound, the state and
  the results. The counter is stored only when the loop ends without an exception.
\<close>

definition clean_crawl_data ::
  "nat \<Rightarrow> gc_env \<Rightarrow> datetime \<Rightarrow> gc_state \<Rightarrow> cleanup_results \<Rightarrow>
     (bool \<times> gc_state \<times> cleanup_results) option" where
  "clean_crawl_data fuel w cutoff st res =
     (case get_redis_connection w of
        Some e \<Rightarrow>
          Some (False, st,
                res\<lparr>errors := errors res @ [''Crawl data cleanup error: '' @ exn_str e]\<rparr>)
      | None \<Rightarrow>
          (case scan_loop fuel w cutoff 0 (st, 0, errors res) of
             None \<Rightarrow> None
           | Some (Some e, st', crawl_cleaned, errs) \<Rightarrow>
               Some (True, st',
                     res\<lparr>errors := errs @ [''Crawl data cleanup error: '' @ exn_str e]\<rparr>)
           | Some (None, st', crawl_cleaned, errs) \<Rightarrow>
               Some (True, st', res\<lparr>crawl_data_cleaned := crawl_cleaned, errors := errs\<rparr>)))"

section \<open>Garbage collector: job registry eviction\<close>

text \<open>
  The body of the inner \<^verbatim>\<open>try\<close> for one job id, lines 285 to 289 and 299 to 303:
  whether the registry entry was removed and counted, or the exception. The argument
  \<^verbatim>\<open>connection=redis_conn\<close> is read before \<^verbatim>\<open>Job.fetch\<close> is called.
\<close>

definition clean_job_body ::
  "gc_env \<Rightarrow> datetime \<Rightarrow> bool \<Rightarrow> registry_kind \<Rightarrow> string \<Rightarrow> string \<Rightarrow> gc_state \<Rightarrow>
     (exn + bool) \<times> gc_state" where
  "clean_job_body w cutoff conn_bound kind queue job_id_to_clean st =
     (if \<not> conn_bound then (Inl redis_conn_unbound, st)
      else (case Job_fetch w job_id_to_clean of
              Inl e \<Rightarrow> (Inl e, st)
            | Inr job_obj \<Rightarrow>
                (case ended_at job_obj of
                   None \<Rightarrow> (Inr False, st)
                 | Some t \<Rightarrow>
                     (case datetime_less t cutoff of
                        Inl e \<Rightarrow> (Inl e, st)
                      | Inr False \<Rightarrow> (Inr False, st)
                      | Inr True \<Rightarrow>
                          (case registry_remove_error w kind queue job_id_to_clean of
                             Some e \<Rightarrow> (Inl e, st)
                           | None \<Rightarrow>
                               (Inr True,
                                st\<lparr>registries := (registries st)
                                      (kind := (registries st kind)
                                         (queue := removeAll job_id_to_clean
                                                     (registries st kind queue)))\<rparr>))))))"

text \<open>
  One round of the loop over job ids, on the state and the counter of the registry:
  \<^verbatim>\<open>except Exception: pass\<close> drops the exception.
\<close>

definition clean_job ::
  "gc_env \<Rightarrow> datetime \<Rightarrow> bool \<Rightarrow> registry_kind \<Rightarrow> string \<Rightarrow> string \<Rightarrow> gc_state \<times> nat \<Rightarrow>
     gc_state \<times> nat" where
  "clean_job w cutoff conn_bound kind queue job_id_to_clean acc =
     (case acc of
        (st, cleaned) \<Rightarrow>
          (case clean_job_body w cutoff conn_bound kind queue job_id_to_clean st of
             (Inl e, st') \<Rightarrow> (st', cleaned)
           | (Inr True, st') \<Rightarrow> (st', cleaned + 1)
           | (Inr False, st') \<Rightarrow> (st', cleaned)))"

text \<open>Lines 277 to 291 for one queue: the failed registry, when requested.\<close>

definition clean_failed ::
  "gc_env \<Rightarrow> datetime \<Rightarrow> bool \<Rightarrow> bool \<Rightarrow> string \<Rightarrow> gc_state \<times> cleanup_results \<Rightarrow>
     exn option \<times> gc_state \<times> cleanup_results" where
  "clean_failed w cutoff conn_bound clean_failed_jobs queue acc =
     (case acc of
        (st, res) \<Rightarrow>
          (if \<not> clean_failed_jobs then (None, st, res)
           else (case registry_len_error w queue of
                   Some e \<Rightarrow> (Some e, st, res)
                 | None \<Rightarrow>
                     (if length (registries st FailedJobs queue) > 0
                      then (case get_job_ids_error w FailedJobs queue of
                              Some e \<Rightarrow> (Some e, st, res)
                            | None \<Rightarrow>
                                (case fold (clean_job w cutoff conn_bound FailedJobs queue)
                                        (registries st FailedJobs queue)
                                        (st, failed_jobs_cleaned res) of
                                   (st', n) \<Rightarrow> (None, st', res\<lparr>failed_jobs_cleaned := n\<rparr>)))
                      else (None, st, res)))))"

text \<open>Lines 294 to 305 for one queue: the finished registry, when requested.\<close>

definition clean_finished ::
  "gc_env \<Rightarrow> datetime \<Rightarrow> bool \<Rightarrow> bool \<Rightarrow> string \<Rightarrow> gc_state \<times> cleanup_results \<Rightarrow>
     exn option \<times> gc_state \<times> cleanup_results" where
  "clean_finished w cutoff conn_bound clean_finished_jobs queue acc =
     (case acc of
        (st, res) \<Rightarrow>
          (if \<not> clean_finished_jobs then (None, st, res)
           else (case get_job_ids_error w FinishedJobs queue of
                   Some e \<Rightarrow> (Some e, st, res)
                 | None \<Rightarrow>
                     (case fold (clean_job w cutoff conn_bound FinishedJobs queue)
                             (registries st FinishedJobs queue)
                             (st, finished_jobs_cleaned res) of
                        (st', n) \<Rightarrow> (None, st', res\<lparr>finished_jobs_cleaned := n\<rparr>)))))"

text \<open>The loop \<^verbatim>\<open>for queue in queues\<close>, lines 275 to 305.\<close>

fun clean_queues ::
  "gc_env \<Rightarrow> datetime \<Rightarrow> bool \<Rightarrow> bool \<Rightarrow> bool \<Rightarrow> string list \<Rightarrow> gc_state \<times> cleanup_results \<Rightarrow>
     exn option \<times> gc_state \<times> cleanup_results" where
  "clean_queues w cutoff conn_bound clean_failed_jobs clean_finished_jobs [] acc =
     (None, acc)"
| "clean_queues w cutoff conn_bound clean_failed_jobs clean_finished_jobs (queue # queues) acc =
     (case clean_failed w cutoff conn_bound clean_failed_jobs queue acc of
        (Some e, acc1) \<Rightarrow> (Some e, acc1)
      | (None, acc1) \<Rightarrow>
          (case clean_finished w cutoff conn_bound clean_finished_jobs queue acc1 of
             (Some e, acc2) \<Rightarrow> (Some e, acc2)
           | (None, acc2) \<Rightarrow>
               clean_queues w cutoff conn_bound clean_failed_jobs clean_finished_jobs queues
                 acc2))"

text \<open>The second phase, lines 272 to 311.\<close>

definition clean_job_registries ::
  "gc_env \<Rightarrow> datetime \<Rightarrow> bool \<Rightarrow> bool \<Rightarrow> bool \<Rightarrow> gc_state \<times> cleanup_results \<Rightarrow>
     gc_state \<times> cleanup_results" where
  "clean_job_registries w cutoff conn_bound clean_failed_jobs clean_finished_jobs acc =
     (case get_all_queues w of
        Inl e \<Rightarrow>
          (fst acc,
           (snd acc)\<lparr>errors := errors (snd acc) @
                        [''Job registry cleanup error: '' @ exn_str e]\<rparr>)
      | Inr queues \<Rightarrow>
          (case clean_queues w cutoff conn_bound clean_failed_jobs clean_finished_jobs queues
                  acc of
             (Some e, st', res') \<Rightarrow>
               (st', res'\<lparr>errors := errors res' @
                              [''Job registry cleanup error: '' @ exn_str e]\<rparr>)
           | (None, st', res') \<Rightarrow> (st', res')))"

section \<open>Garbage collector: stale-queue detection\<close>

text \<open>
  The loop of lines 315 to 323: a queue with more than 1000 pending items is reported,
  nothing is removed.
\<close>

fun check_queues :: "gc_env \<Rightarrow> bool \<Rightarrow> string list \<Rightarrow> gc_state \<Rightarrow> exn option \<times> gc_state" where
  "check_queues w conn_bound [] st = (None, st)"
| "check_queues w conn_bound (queue_name # rest) st =
     (if \<not> conn_bound then (Some redis_conn_unbound, st)
      else (case scard w (''crawl:queue:'' @ queue_name) of
              Inl e \<Rightarrow> (Some e, st)
            | Inr queue_size \<Rightarrow>
                check_queues w conn_bound rest
                  (if queue_size > 1000
                   then st\<lparr>stale_reported := stale_reported st @ [(queue_name, queue_size)]\<rparr>
                   else st)))"

text \<open>The third phase, lines 314 to 326.\<close>

definition check_stale_queues ::
  "gc_env \<Rightarrow> bool \<Rightarrow> gc_state \<times> cleanup_results \<Rightarrow> gc_state \<times> cleanup_results" where
  "check_stale_queues w conn_bound acc =
     (case check_queues w conn_bound [''default'', ''high'', ''low''] (fst acc) of
        (Some e, st') \<Rightarrow>
          (st', (snd acc)\<lparr>errors := errors (snd acc) @
                              [''Queue cleanup error: '' @ exn_str e]\<rparr>)
      | (None, st') \<Rightarrow> (st', snd acc))"

section \<open>Garbage collector: the job\<close>

definition cleanup_results_dict :: "cleanup_results \<Rightarrow> pydict" where
  "cleanup_results_dict res =
     [(''crawl_data_cleaned'', JInt (int (crawl_data_cleaned res))),
      (''failed_jobs_cleaned'', JInt (int (failed_jobs_cleaned res))),
      (''finished_jobs_cleaned'', JInt (int (finished_jobs_cleaned res))),
      (''stale_queues_cleaned'', JInt (int (stale_queues_cleaned res))),
      (''errors'', JList (map JStr (errors res)))]"

text \<open>The three phases in order, each on what the one before left.\<close>

definition run_phases ::
  "nat \<Rightarrow> gc_env \<Rightarrow> datetime \<Rightarrow> bool \<Rightarrow> bool \<Rightarrow> gc_state \<Rightarrow> (gc_state \<times> cleanup_results) option"
where
  "run_phases fuel w cutoff clean_failed_jobs clean_finished_jobs st =
     (case clean_crawl_data fuel w cutoff st no_results of
        None \<Rightarrow> None
      | Some (conn_bound, st1, res1) \<Rightarrow>
          Some (check_stale_queues w conn_bound
                  (clean_job_registries w cutoff conn_bound clean_failed_jobs
                     clean_finished_jobs (st1, res1))))"

text \<open>
  The body of the outer \<^verbatim>\<open>try\<close> of \<^verbatim>\<open>cleanup_old_data_job\<close>, lines 222 to 341. The
  statistics and the cutoff are computed outside the phases.
\<close>

definition cleanup_old_data_job_body ::
  "nat \<Rightarrow> gc_env \<Rightarrow> int \<Rightarrow> bool \<Rightarrow> bool \<Rightarrow> string \<Rightarrow> gc_state \<Rightarrow>
     ((exn + pydict) \<times> gc_state) option" where
  "cleanup_old_data_job_body fuel w max_age_days clean_failed_jobs clean_finished_jobs job_id st =
     (case get_stats w st of
        Inl e \<Rightarrow> Some (Inl e, st)
      | Inr stats_before \<Rightarrow>
          (case cutoff_time (gc_utcnow w) max_age_days of
             Inl e \<Rightarrow> Some (Inl e, st)
           | Inr cutoff \<Rightarrow>
               (case run_phases fuel w cutoff clean_failed_jobs clean_finished_jobs st of
                  None \<Rightarrow> None
                | Some (st', res) \<Rightarrow>
                    (case get_stats w st' of
                       Inl e \<Rightarrow> Some (Inl e, st')
                     | Inr stats_after \<Rightarrow>
                         Some (Inr [(''status'', JStr ''success''),
                                    (''stats_before'', JDict stats_before),
                                    (''stats_after'', JDict stats_after),
                                    (''cleanup_results'', JDict (cleanup_results_dict res)),
                                    (''max_age_days'', JInt max_age_days),
                                    (''job_id'', JStr job_id)], st')))))"

text \<open>\<^verbatim>\<open>cleanup_old_data_job\<close>: the outer \<^verbatim>\<open>except Exception\<close> returns the error
  dictionary.\<close>

definition cleanup_old_data_job ::
  "nat \<Rightarrow> gc_env \<Rightarrow> int \<Rightarrow> bool \<Rightarrow> bool \<Rightarrow> gc_state \<Rightarrow> ((exn + pydict) \<times> gc_state) option" where
  "cleanup_old_data_job fuel w max_age_days clean_failed_jobs clean_finished_jobs st =
     (case cleanup_old_data_job_body fuel w max_age_days clean_failed_jobs clean_finished_jobs
             (job_id_of (gc_current_job w)) st of
        None \<Rightarrow> None
      | Some (Inl e, st') \<Rightarrow>
          Some (Inr [(''status'', JStr ''error''), (''error'', JStr (exn_str e)),
                     (''job_id'', JStr (job_id_of (gc_current_job w)))], st')
      | Some (Inr r, st') \<Rightarrow> Some (Inr r, st'))"

section \<open>Garbage collector: records, scan passes and a concrete store\<close>

text \<open>
  The crawl timestamp of the record under a key, as lines 251 to 255 read it: the key
  holds non-empty data that decodes to an object whose \<^verbatim>\<open>crawled_at\<close> parses.
\<close>

definition crawled_at :: "gc_env \<Rightarrow> gc_state \<Rightarrow> string \<Rightarrow> datetime option" where
  "crawled_at w st key =
     (case kv st key of
        None \<Rightarrow> None
      | Some data \<Rightarrow>
          (if data = [] then None
           else (case json_loads w data of
                   Inr (JDict crawl_info) \<Rightarrow>
                     (case fromisoformat w
                             (dict_get_default crawl_info ''crawled_at'' (JStr '''')) of
                        Inr t \<Rightarrow> Some t
                      | Inl e \<Rightarrow> None)
                 | _ \<Rightarrow> None)))"

text \<open>A record crawled strictly before the cutoff \<open>c\<close>.\<close>

definition expired :: "gc_env \<Rightarrow> int \<Rightarrow> gc_state \<Rightarrow> string \<Rightarrow> bool" where
  "expired w c st key = (case crawled_at w st key of Some (Naive t) \<Rightarrow> t < c | _ \<Rightarrow> False)"

text \<open>
  The keys that the cursor iteration of \<^verbatim>\<open>scan\<close> returns from a cursor, page after
  page, and the exception that ends it, if any; \<open>None\<close> when the cursor has not come
  back to 0 within the given number of calls.
\<close>

fun scan_keys ::
  "nat \<Rightarrow> (nat \<Rightarrow> exn + nat \<times> string list) \<Rightarrow> nat \<Rightarrow> (string list \<times> exn option) option" where
  "scan_keys 0 sc cursor = None"
| "scan_keys (Suc fuel) sc cursor =
     (case sc cursor of
        Inl e \<Rightarrow> Some ([], Some e)
      | Inr (cursor', keys) \<Rightarrow>
          (if cursor' = 0 then Some (keys, None)
           else (case scan_keys fuel sc cursor' of
                   None \<Rightarrow> None
                 | Some (ks, e) \<Rightarrow> Some (keys @ ks, e))))"

text \<open>What the returned dictionary says under \<^verbatim>\<open>cleanup_results\<close>.\<close>

definition cleanup_result :: "pydict \<Rightarrow> string \<Rightarrow> json" where
  "cleanup_result r k =
     (case dict_get r ''cleanup_results'' of JDict res \<Rightarrow> dict_get res k | _ \<Rightarrow> JNull)"

text \<open>
  A store with one record crawled ten days ago and one crawled two days ago, scanned in
  two pages, on day 100; one queue whose failed registry holds two jobs that ended ten
  and eight days ago.
\<close>

definition demo_gc_state :: gc_state where
  "demo_gc_state =
     \<lparr>kv = [''crawl:url:abc123'' \<mapsto> ''old record'', ''crawl:url:xyz789'' \<mapsto> ''recent record''],
      registries = (\<lambda>kind queue.
         if kind = FailedJobs \<and> queue = ''default'' then [''failed-1'', ''failed-2''] else []),
      stale_reported = []\<rparr>"

definition demo_gc_env :: gc_env where
  "demo_gc_env =
     \<lparr>gc_current_job = Some ''test-job-123'',
      gc_utcnow = 100 * day_us,
      get_stats = (\<lambda>st. Inr [(''crawled_urls'', JInt 100)]),
      get_redis_connection = None,
      scan = (\<lambda>cursor. if cursor = 0 then Inr (10, [''crawl:url:abc123''])
                        else Inr (0, [''crawl:url:xyz789''])),
      redis_get_error = (\<lambda>key. None),
      redis_delete_error = (\<lambda>key. None),
      json_loads = (\<lambda>data.
         if data = ''old record'' then Inr (JDict [(''crawled_at'', JStr ''day 90'')])
         else if data = ''recent record'' then Inr (JDict [(''crawled_at'', JStr ''day 98'')])
         else Inl (JSONDecodeError ''Expecting value'')),
      fromisoformat = (\<lambda>v.
         if v = JStr ''day 90'' then Inr (Naive (90 * day_us))
         else if v = JStr ''day 98'' then Inr (Naive (98 * day_us))
         else Inl (ValueError ''Invalid isoformat string'')),
      get_all_queues = Inr [''default''],
      registry_len_error = (\<lambda>queue. None),
      get_job_ids_error = (\<lambda>kind queue. None),
      Job_fetch = (\<lambda>job_id_to_clean.
         if job_id_to_clean = ''failed-1'' then Inr \<lparr>ended_at = Some (Naive (90 * day_us))\<rparr>
         else if job_id_to_clean = ''failed-2'' then Inr \<lparr>ended_at = Some (Naive (92 * day_us))\<rparr>
         else Inl (RuntimeError ''No such job'')),
      registry_remove_error = (\<lambda>kind queue job_id_to_clean. None),
      scard = (\<lambda>queue_key. Inr 0)\<rparr>"


definition unconnected_gc_env :: gc_env where
  "unconnected_gc_env =
     demo_gc_env\<lparr>get_redis_connection := Some (RuntimeError ''Connection refused'')\<rparr>"

chapter \<open>Properties\<close>

section \<open>Severity filter\<close>

lemma should_publish_eq:
  "should_publish mode level =
     Inr (level \<in> set (dict_get_default STATUS_LEVELS mode [''info'', ''error'', ''fatal'']))"
  by (simp add: should_publish_def dict_subscript_def STATUS_LEVELS_def)

lemma should_publish_error_level: "should_publish mode ''error'' = Inr True"
  by (simp add: should_publish_eq dict_get_default_def STATUS_LEVELS_def)

lemma should_publish_info_level: "should_publish mode ''info'' = Inr (mode \<noteq> ''critical'')"
  by (simp add: should_publish_eq dict_get_default_def STATUS_LEVELS_def)

lemma publish_result_filtered:
  "should_publish (filter_mode L) lv = Inr False \<Longrightarrow>
   publish_result L r lv s = (None, log_msg DEBUG ''Filtered message'' (JStr lv) s)"
  by (simp add: publish_result_def publish_result_body_def)

lemma publish_result_sent:
  "should_publish (filter_mode L) lv = Inr True \<Longrightarrow> build_status_message r lv = Inr m \<Longrightarrow>
   redis_publish L (channel L @ '':status'') m = None \<Longrightarrow>
   publish_result L r lv s =
     (None, log_msg INFO ''Published'' (JStr lv)
              (s\<lparr>published := published s @ [(channel L @ '':status'', m)]\<rparr>))"
  by (simp add: publish_result_def publish_result_body_def)

lemma published_log_msg: "published (log_msg lv t v s) = published s"
  by (simp add: log_msg_def)

lemma published_record_call: "published (record_call c s) = published s"
  by (simp add: record_call_def)

lemma calls_log_msg: "calls (log_msg lv t v s) = calls s"
  by (simp add: log_msg_def)

lemma build_status_message_error:
  "build_status_message [(''error'', JStr m)] lv =
     Inr \<lparr>sm_agent_name = JStr ''unknown'', sm_task_id = JStr '''',
          sm_type = (if m = [] then ''progress'' else ''error''), sm_level = lv,
          sm_message = JStr m, sm_metadata = JDict [], sm_progress = None\<rparr>"
  by (simp add: build_status_message_def dict_get_default_def dict_get_def py_or_def
        progress_in_def dict_contains_def)

lemma build_status_message_dict_metadata:
  assumes "dict_get_default r ''metadata'' (JDict []) = JDict md"
  shows "\<exists>m. build_status_message r lv = Inr m \<and> sm_level m = lv \<and>
       sm_type m = (if truthy (dict_get r ''error'') then ''error'' else ''progress'')"
proof (cases "map_of md ''progress''")
  case None
  then have "progress_in (JDict md) = Inr False"
    by (simp add: progress_in_def dict_contains_def)
  then show ?thesis using assms
    by (simp add: build_status_message_def)
next
  case (Some p)
  then have pin: "progress_in (JDict md) = Inr True"
    by (simp add: progress_in_def dict_contains_def)
  have "map_of r ''metadata'' = Some (JDict md)"
  proof (cases "map_of r ''metadata''")
    case None
    then have "md = []" using assms by (simp add: dict_get_default_def)
    then show ?thesis using Some by simp
  next
    case (Some v)
    then show ?thesis using assms by (simp add: dict_get_default_def)
  qed
  then have sub: "dict_subscript r ''metadata'' = Inr (JDict md)"
    by (simp add: dict_subscript_def)
  have po: "progress_of (JDict md) = Inr p"
    using Some by (simp add: progress_of_def dict_subscript_def)
  show ?thesis using assms pin sub po
    by (simp add: build_status_message_def)
qed

text \<open>
  C4. In mode \<^verbatim>\<open>compact\<close> a \<^verbatim>\<open>debug\<close> message is never published and an \<^verbatim>\<open>info\<close>
  message passes the filter; in every mode the filter admits a level exactly when it is
  in the mode's list of \<^verbatim>\<open>STATUS_LEVELS\<close> (the \<^verbatim>\<open>compact\<close> list for an unknown mode).
  A level that is not admitted leaves the status channel untouched, whatever the result;
  an admitted level puts exactly the built message on the status channel, once the
  message is built and the store accepts it.
\<close>

theorem severity_filter:
  "should_publish ''compact'' ''debug'' = Inr False \<and>
   should_publish ''compact'' ''info'' = Inr True \<and>
   should_publish mode level =
     Inr (level \<in> set (dict_get_default STATUS_LEVELS mode [''info'', ''error'', ''fatal''])) \<and>
   (level \<notin> set (dict_get_default STATUS_LEVELS (filter_mode L) [''info'', ''error'', ''fatal''])
      \<longrightarrow> published (snd (publish_result L result level s)) = published s) \<and>
   (level \<in> set (dict_get_default STATUS_LEVELS (filter_mode L) [''info'', ''error'', ''fatal''])
      \<and> build_status_message result level = Inr m
      \<and> redis_publish L (channel L @ '':status'') m = None
      \<longrightarrow> published (snd (publish_result L result level s)) =
            published s @ [(channel L @ '':status'', m)])"
proof -
  have a: "should_publish ''compact'' ''debug'' = Inr False"
    by (simp add: should_publish_eq dict_get_default_def STATUS_LEVELS_def)
  have b: "should_publish ''compact'' ''info'' = Inr True"
    by (simp add: should_publish_info_level)
  have c: "level \<notin> set (dict_get_default STATUS_LEVELS (filter_mode L) [''info'', ''error'', ''fatal''])
      \<longrightarrow> published (snd (publish_result L result level s)) = published s"
    by (simp add: publish_result_filtered should_publish_eq published_log_msg)
  have d: "level \<in> set (dict_get_default STATUS_LEVELS (filter_mode L) [''info'', ''error'', ''fatal''])
      \<and> build_status_message result level = Inr m
      \<and> redis_publish L (channel L @ '':status'') m = None
      \<longrightarrow> published (snd (publish_result L result level s)) =
            published s @ [(channel L @ '':status'', m)]"
    by (simp add: publish_result_sent should_publish_eq published_log_msg)
  show ?thesis using a b c d should_publish_eq by blast
qed

theorem severity_filter_witness:
  "published (snd (publish_result (demo_listener ''compact'') [(''error'', JStr ''late'')] ''debug'' idle)) = [] \<and>
   map (sm_level \<circ> snd)
     (published (snd (publish_result (demo_listener ''compact'') [(''error'', JStr ''late'')] ''info'' idle)))
     = [''info'']"
proof -
  let ?L = "demo_listener ''compact''"
  let ?m = "\<lparr>sm_agent_name = JStr ''unknown'', sm_task_id = JStr '''',
          sm_type = ''error'', sm_level = ''info'',
          sm_message = JStr ''late'', sm_metadata = JDict [], sm_progress = None\<rparr>"
  have f: "filter_mode ?L = ''compact''" and ch: "channel ?L = ''k0mmand3r''"
    and rp: "redis_publish ?L (channel ?L @ '':status'') ?m = None"
    by (simp_all add: demo_listener_def)
  have al: "dict_get_default STATUS_LEVELS ''compact'' [''info'', ''error'', ''fatal'']
              = [''info'', ''error'', ''fatal'']"
    by (simp add: dict_get_default_def STATUS_LEVELS_def)
  have bm: "build_status_message [(''error'', JStr ''late'')] ''info'' = Inr ?m"
    by (simp add: build_status_message_error)
  have 1: "published (snd (publish_result ?L [(''error'', JStr ''late'')] ''debug'' idle)) = published idle"
    using severity_filter [where level = "''debug''" and L = ?L and result = "[(''error'', JStr ''late'')]" and s = idle]
    by (simp add: f al)
  have 2: "published (snd (publish_result ?L [(''error'', JStr ''late'')] ''info'' idle)) =
             published idle @ [(channel ?L @ '':status'', ?m)]"
    using severity_filter [where level = "''info''" and L = ?L and result = "[(''error'', JStr ''late'')]" and s = idle and m = ?m] bm rp
    by (simp add: f al)
  show ?thesis using 1 2 by (simp add: idle_def)
qed

text \<open>
  C10. A filter mode that is none of \<^verbatim>\<open>critical\<close>, \<^verbatim>\<open>compact\<close>, \<^verbatim>\<open>verbose\<close>,
  \<^verbatim>\<open>debug\<close> is not rejected: the filter falls back to the \<^verbatim>\<open>compact\<close> list and admits
  exactly the levels \<^verbatim>\<open>info\<close>, \<^verbatim>\<open>error\<close> and \<^verbatim>\<open>fatal\<close>.
\<close>

theorem unknown_filter_mode_is_compact:
  "mode \<notin> set [''critical'', ''compact'', ''verbose'', ''debug''] \<Longrightarrow>
   should_publish mode level = Inr (level \<in> set [''info'', ''error'', ''fatal'']) \<and>
   should_publish mode level = should_publish ''compact'' level"
  by (simp add: should_publish_eq dict_get_default_def STATUS_LEVELS_def)

theorem unknown_filter_mode_is_compact_witness:
  "''loud'' \<notin> set [''critical'', ''compact'', ''verbose'', ''debug''] \<and>
   should_publish ''loud'' ''info'' = Inr True \<and> should_publish ''loud'' ''debug'' = Inr False \<and>
   should_publish ''loud'' ''trace'' = should_publish ''compact'' ''trace''"
proof -
  have h: "''loud'' \<notin> set [''critical'', ''compact'', ''verbose'', ''debug'']" by simp
  have 1: "should_publish ''loud'' ''info'' = Inr True"
    using unknown_filter_mode_is_compact [OF h, of "''info''"] by simp
  have 2: "should_publish ''loud'' ''debug'' = Inr False"
    using unknown_filter_mode_is_compact [OF h, of "''debug''"] by simp
  have 3: "should_publish ''loud'' ''trace'' = should_publish ''compact'' ''trace''"
    using unknown_filter_mode_is_compact [OF h, of "''trace''"] by (rule conjunct2)
  show ?thesis using h 1 2 3 by blast
qed

section \<open>Command router: what the handlers preserve\<close>

lemma running_log_msg: "running (log_msg lv t v s) = running s"
  by (simp add: log_msg_def)

lemma running_record_call: "running (record_call c s) = running s"
  by (simp add: record_call_def)

lemma calls_record_call: "calls (record_call c s) = calls s @ [c]"
  by (simp add: record_call_def)

lemma publish_result_no_exn: "fst (publish_result L r lv s) = None"
  by (simp add: publish_result_def split: prod.splits option.splits)

lemma publish_result_running: "running (snd (publish_result L r lv s)) = running s"
  by (simp add: publish_result_def publish_result_body_def running_log_msg
      split: prod.splits option.splits sum.splits bool.splits)

lemma publish_result_calls: "calls (snd (publish_result L r lv s)) = calls s"
  by (simp add: publish_result_def publish_result_body_def calls_log_msg
      split: prod.splits option.splits sum.splits bool.splits)

lemma agent_body_running:
  "running (snd (handle_agent_command_body L m a s)) = running s"
  by (simp add: handle_agent_command_body_def Let_def running_log_msg running_record_call
        publish_result_running split: sum.splits option.splits)

lemma agent_command_running: "running (snd (handle_agent_command L m s)) = running s"
proof -
  let ?a = "dict_get_default (params m) ''action'' (JStr ''run'')"
  obtain r s' where b: "handle_agent_command_body L m ?a s = (r, s')"
    by (cases "handle_agent_command_body L m ?a s")
  have "running s' = running s" using agent_body_running [of L m ?a s] b by simp
  then show ?thesis
    by (cases r) (simp_all add: handle_agent_command_def b publish_result_running running_log_msg)
qed

lemma chain_body_running:
  "running (snd (handle_chain_command_body L m a s)) = running s"
  by (simp add: handle_chain_command_body_def Let_def running_log_msg running_record_call
        publish_result_running split: sum.splits option.splits)

lemma chain_command_running: "running (snd (handle_chain_command L m s)) = running s"
proof -
  let ?a = "dict_get_default (params m) ''action'' (JStr ''run'')"
  obtain r s' where b: "handle_chain_command_body L m ?a s = (r, s')"
    by (cases "handle_chain_command_body L m ?a s")
  have "running s' = running s" using chain_body_running [of L m ?a s] b by simp
  then show ?thesis
    by (cases r) (simp_all add: handle_chain_command_def b publish_result_running running_log_msg)
qed

lemma route_running: "running (snd (route L m s)) = running s"
  by (simp add: route_def agent_command_running chain_command_running running_log_msg)

lemma message_body_running: "running (snd (handle_message_body L d s)) = running s"
  by (simp add: handle_message_body_def Let_def route_running running_log_msg
      split: payload.splits json.splits sum.splits)

lemma handle_message_running: "running (snd (handle_message L d s)) = running s"
proof -
  obtain r s' where b: "handle_message_body L d s = (r, s')"
    by (cases "handle_message_body L d s")
  have "running s' = running s" using message_body_running [of L d s] b by simp
  then show ?thesis
    by (simp add: handle_message_def b running_log_msg split: option.splits exn.splits)
qed

lemma handle_message_no_exn: "fst (handle_message L d s) = None"
  by (simp add: handle_message_def split: prod.splits option.splits exn.splits)

lemma listen_loop_consumes_all:
  "running s \<Longrightarrow> fst (listen_loop L msgs s) = None \<and> snd (snd (listen_loop L msgs s)) = []"
proof (induction msgs arbitrary: s)
  case Nil
  then show ?case by simp
next
  case (Cons p msgs)
  obtain ty d where p: "p = (ty, d)" by (cases p)
  obtain r s' where h: "handle_message L d s = (r, s')" by (cases "handle_message L d s")
  have r: "r = None" using handle_message_no_exn [of L d s] h by simp
  have "running s'" using handle_message_running [of L d s] h Cons.prems by simp
  then show ?case using Cons p h r by simp
qed

lemma handle_message_bad_json:
  "handle_message L (BadJson m) s = (None, log_msg ERROR ''Invalid JSON message'' (JStr m) s)"
  by (simp add: handle_message_def handle_message_body_def)

lemma handle_message_bad_bytes:
  "handle_message L (BadBytes m) s = (None, log_msg ERROR ''Error handling message'' (JStr m) s)"
  by (simp add: handle_message_def handle_message_body_def)

lemma handle_message_not_a_dict:
  "(case v of JDict _ \<Rightarrow> False | _ \<Rightarrow> True) \<Longrightarrow>
   handle_message L (Json v) s =
     (None, log_msg ERROR ''Error handling message''
              (JStr ''argument after ** must be a mapping'') s)"
  by (cases v) (simp_all add: handle_message_def handle_message_body_def)

lemma K0mmand3rMessage_init_error:
  "K0mmand3rMessage_init d = Inl e \<Longrightarrow> \<exists>m. e = ValidationError m"
  by (auto simp add: K0mmand3rMessage_init_def
        split: option.splits json.splits if_splits)

lemma handle_message_invalid:
  assumes "K0mmand3rMessage_init d = Inl e"
  shows "handle_message L (Json (JDict d)) s =
           (None, log_msg ERROR ''Error handling message'' (JStr (exn_str e)) s)"
proof -
  obtain m where "e = ValidationError m" using K0mmand3rMessage_init_error [OF assms] by blast
  then show ?thesis using assms
    by (simp add: handle_message_def handle_message_body_def)
qed

lemma handle_message_unknown_verb:
  assumes "K0mmand3rMessage_init d = Inr msg"
    and "verb msg \<notin> set [''agent'', ''dispatch'', ''status'', ''capability'', ''complete'',
                            ''message'', ''chain'']"
  shows "handle_message L (Json (JDict d)) s =
           (None, log_msg WARNING ''Unknown verb'' (JStr (verb msg))
                    (log_msg INFO ''Received command'' (JList [JStr (verb msg), agent_id msg]) s))"
proof -
  have "\<not> dict_contains VERB_MAP (verb msg)"
    using assms(2) by (simp add: dict_contains_def VERB_MAP_def)
  then show ?thesis using assms
    by (simp add: handle_message_def handle_message_body_def route_def)
qed

text \<open>
  C9. The message handler never lets an exception out, whatever the payload. Bytes that
  are not UTF-8, text that is not JSON, JSON that is not an object or does not validate
  as a \<^verbatim>\<open>K0mmand3rMessage\<close> are logged at level error and dropped; a valid message
  whose verb is neither an agent verb nor \<^verbatim>\<open>chain\<close> is logged with a warning and
  dropped. In each case only the log changes. A running listener loop consumes every
  delivered message and is not ended by an exception.
\<close>

theorem handle_message_never_raises:
  "fst (handle_message L data s) = None \<and>
   handle_message L (BadJson raw) s = (None, log_msg ERROR ''Invalid JSON message'' (JStr raw) s) \<and>
   handle_message L (BadBytes raw) s =
     (None, log_msg ERROR ''Error handling message'' (JStr raw) s) \<and>
   ((case v of JDict _ \<Rightarrow> False | _ \<Rightarrow> True) \<longrightarrow>
      handle_message L (Json v) s =
        (None, log_msg ERROR ''Error handling message''
                 (JStr ''argument after ** must be a mapping'') s)) \<and>
   (K0mmand3rMessage_init d = Inl e \<longrightarrow>
      handle_message L (Json (JDict d)) s =
        (None, log_msg ERROR ''Error handling message'' (JStr (exn_str e)) s)) \<and>
   (K0mmand3rMessage_init d = Inr msg \<and>
    verb msg \<notin> set [''agent'', ''dispatch'', ''status'', ''capability'', ''complete'',
                      ''message'', ''chain''] \<longrightarrow>
      handle_message L (Json (JDict d)) s =
        (None, log_msg WARNING ''Unknown verb'' (JStr (verb msg))
                 (log_msg INFO ''Received command'' (JList [JStr (verb msg), agent_id msg]) s))) \<and>
   (running s \<longrightarrow>
      fst (listen_loop L msgs s) = None \<and> snd (snd (listen_loop L msgs s)) = [])"
  using handle_message_no_exn [of L data s] handle_message_bad_json [of L raw s]
    handle_message_bad_bytes [of L raw s] handle_message_not_a_dict [of v L s]
    handle_message_invalid [of d e L s] handle_message_unknown_verb [of d msg L s]
    listen_loop_consumes_all [of s L msgs]
  by blast

theorem handle_message_never_raises_witness:
  "handle_message (demo_listener ''compact'') (Json (JList [])) idle =
     (None, log_msg ERROR ''Error handling message''
              (JStr ''argument after ** must be a mapping'') idle) \<and>
   handle_message (demo_listener ''compact'') (Json (JDict [(''params'', JDict [])])) idle =
     (None, log_msg ERROR ''Error handling message'' (JStr ''verb'') idle) \<and>
   handle_message (demo_listener ''compact'') (Json (JDict [(''verb'', JStr ''reboot'')])) idle =
     (None, log_msg WARNING ''Unknown verb'' (JStr ''reboot'')
              (log_msg INFO ''Received command'' (JList [JStr ''reboot'', JNull]) idle)) \<and>
   listen_loop (demo_listener ''compact'')
     [(''message'', BadJson ''{''), (''message'', Json (JDict [(''verb'', JStr ''reboot'')])),
      (''message'', dispatch_researcher)] idle =
     (None, snd (listen_loop (demo_listener ''compact'')
        [(''message'', BadJson ''{''), (''message'', Json (JDict [(''verb'', JStr ''reboot'')])),
         (''message'', dispatch_researcher)] idle))"
proof -
  let ?L = "demo_listener ''compact''"
  let ?msgs = "[(''message'', BadJson ''{''), (''message'', Json (JDict [(''verb'', JStr ''reboot'')])),
      (''message'', dispatch_researcher)]"
  let ?msg = "\<lparr>verb = ''reboot'', params = [], content = JNull, agent_id = JNull\<rparr>"
  note T = handle_message_never_raises [where L = ?L and s = idle and v = "JList []"
      and d = "[(''params'', JDict [])]" and e = "ValidationError ''verb''" and msgs = ?msgs]
  note U = handle_message_never_raises [where L = ?L and s = idle
      and d = "[(''verb'', JStr ''reboot'')]" and msg = ?msg]
  have i1: "K0mmand3rMessage_init [(''params'', JDict [])] = Inl (ValidationError ''verb'')"
    by (simp add: K0mmand3rMessage_init_def)
  have i2: "K0mmand3rMessage_init [(''verb'', JStr ''reboot'')] = Inr ?msg"
    by (simp add: K0mmand3rMessage_init_def dict_get_default_def dict_get_def optional_str_def)
  have r: "running idle" by (simp add: idle_def)
  have 1: "handle_message ?L (Json (JList [])) idle =
     (None, log_msg ERROR ''Error handling message''
              (JStr ''argument after ** must be a mapping'') idle)"
    using T by simp
  have 2: "handle_message ?L (Json (JDict [(''params'', JDict [])])) idle =
     (None, log_msg ERROR ''Error handling message'' (JStr ''verb'') idle)"
    using T i1 by simp
  have 3: "handle_message ?L (Json (JDict [(''verb'', JStr ''reboot'')])) idle =
     (None, log_msg WARNING ''Unknown verb'' (JStr ''reboot'')
              (log_msg INFO ''Received command'' (JList [JStr ''reboot'', JNull]) idle))"
    using U i2 by simp
  have 4: "fst (listen_loop ?L ?msgs idle) = None \<and> snd (snd (listen_loop ?L ?msgs idle)) = []"
    using T r by blast
  have 5: "listen_loop ?L ?msgs idle = (None, snd (listen_loop ?L ?msgs idle))"
    using 4 by (cases "listen_loop ?L ?msgs idle") simp
  show ?thesis using 1 2 3 5 by blast
qed

section \<open>Command router: failures and the dispatch scenario\<close>

lemma published_publish_result_error_level:
  assumes "redis_publish L (channel L @ '':status'')
             \<lparr>sm_agent_name = JStr ''unknown'', sm_task_id = JStr '''',
              sm_type = (if m = [] then ''progress'' else ''error''), sm_level = ''error'',
              sm_message = JStr m, sm_metadata = JDict [], sm_progress = None\<rparr> = None"
  shows "published (snd (publish_result L [(''error'', JStr m)] ''error'' s)) =
           published s @
             [(channel L @ '':status'',
               \<lparr>sm_agent_name = JStr ''unknown'', sm_task_id = JStr '''',
                sm_type = (if m = [] then ''progress'' else ''error''), sm_level = ''error'',
                sm_message = JStr m, sm_metadata = JDict [], sm_progress = None\<rparr>)]"
  using publish_result_sent [OF should_publish_error_level build_status_message_error assms]
  by (simp add: published_log_msg)

text \<open>
  The agent family: an exception of the command body is published at level \<^verbatim>\<open>error\<close>,
  which every filter mode admits.
\<close>

lemma agent_command_failure_level:
  assumes "handle_agent_command_body L message
             (dict_get_default (params message) ''action'' (JStr ''run'')) s = (Some e, s')"
    and "redis_publish L (channel L @ '':status'')
             \<lparr>sm_agent_name = JStr ''unknown'', sm_task_id = JStr '''',
              sm_type = (if exn_str e = [] then ''progress'' else ''error''), sm_level = ''error'',
              sm_message = JStr (exn_str e), sm_metadata = JDict [], sm_progress = None\<rparr> = None"
  shows "published (snd (handle_agent_command L message s)) =
           published s' @
             [(channel L @ '':status'',
               \<lparr>sm_agent_name = JStr ''unknown'', sm_task_id = JStr '''',
                sm_type = (if exn_str e = [] then ''progress'' else ''error''),
                sm_level = ''error'',
                sm_message = JStr (exn_str e), sm_metadata = JDict [], sm_progress = None\<rparr>)]"
  using published_publish_result_error_level [OF assms(2)] assms(1)
  by (simp add: handle_agent_command_def published_log_msg)

text \<open>
  The chain family: an exception of the command body is published at level \<^verbatim>\<open>info\<close>,
  so mode \<^verbatim>\<open>critical\<close> filters it.
\<close>

lemma chain_command_failure_filtered:
  assumes "handle_chain_command_body L message
             (dict_get_default (params message) ''action'' (JStr ''run'')) s = (Some e, s')"
    and "filter_mode L = ''critical''"
  shows "published (snd (handle_chain_command L message s)) = published s'"
proof -
  have "should_publish (filter_mode L) ''info'' = Inr False"
    using assms(2) by (simp add: should_publish_info_level)
  then show ?thesis using assms(1)
    by (simp add: handle_chain_command_def publish_result_filtered published_log_msg)
qed

text \<open>
  C2. A chain run that raises, on a listener in mode \<^verbatim>\<open>critical\<close>: nothing reaches the
  status channel. In mode \<^verbatim>\<open>compact\<close> the one message published has level \<^verbatim>\<open>info\<close>,
  not \<^verbatim>\<open>error\<close>. The agent family publishes the same failure at level \<^verbatim>\<open>error\<close>.
\<close>

theorem chain_failure_not_error_level:
  "published (snd (handle_message (demo_listener ''critical'') chain_summarize idle)) = [] \<and>
   map (\<lambda>(c, m). (sm_type m, sm_level m))
     (published (snd (handle_message (demo_listener ''compact'') chain_summarize idle)))
     = [(''error'', ''info'')] \<and>
   map (\<lambda>(c, m). (sm_type m, sm_level m))
     (published (snd (handle_message (failing_listener ''critical'') dispatch_researcher idle)))
     = [(''error'', ''error'')]"
  by code_simp

lemma dispatch_researcher_routed:
  "handle_message_body L dispatch_researcher s =
     handle_agent_command L
       \<lparr>verb = ''dispatch'',
        params = [(''name'', JStr ''researcher''), (''input'', JStr ''hi''),
                  (''action'', JStr ''run'')],
        content = JNull, agent_id = JNull\<rparr>
       (log_msg DEBUG ''Mapped verb to action'' (JStr ''dispatch'')
          (log_msg INFO ''Received command'' (JList [JStr ''dispatch'', JNull]) s))"
  by (simp add: handle_message_body_def dispatch_researcher_def K0mmand3rMessage_init_def
        dict_get_default_def dict_get_def optional_str_def dict_contains_def VERB_MAP_def
        set_action_def dict_subscript_def route_def)

lemma dispatch_researcher_body:
  "handle_agent_command_body L
       \<lparr>verb = ''dispatch'',
        params = [(''name'', JStr ''researcher''), (''input'', JStr ''hi''),
                  (''action'', JStr ''run'')],
        content = JNull, agent_id = JNull\<rparr> (JStr ''run'') s =
     (case run_agent L (JStr ''researcher'') (JStr ''hi'') JNull of
        Inl e \<Rightarrow> (Some e, record_call (RunAgent (JStr ''researcher'') (JStr ''hi'') JNull) s)
      | Inr result \<Rightarrow>
          publish_result L result ''info''
            (record_call (RunAgent (JStr ''researcher'') (JStr ''hi'') JNull) s))"
  by (simp add: handle_agent_command_body_def AgentAction_RUN_def dict_get_def py_or_def Let_def)

lemma dispatch_researcher_handled:
  "handle_message L dispatch_researcher s =
     (case run_agent L (JStr ''researcher'') (JStr ''hi'') JNull of
        Inl e \<Rightarrow>
          publish_result L [(''error'', JStr (exn_str e))] ''error''
            (log_msg ERROR ''Agent command failed'' (JStr (exn_str e))
               (record_call (RunAgent (JStr ''researcher'') (JStr ''hi'') JNull)
                  (log_msg DEBUG ''Mapped verb to action'' (JStr ''dispatch'')
                     (log_msg INFO ''Received command'' (JList [JStr ''dispatch'', JNull]) s))))
      | Inr result \<Rightarrow>
          publish_result L result ''info''
            (record_call (RunAgent (JStr ''researcher'') (JStr ''hi'') JNull)
               (log_msg DEBUG ''Mapped verb to action'' (JStr ''dispatch'')
                  (log_msg INFO ''Received command'' (JList [JStr ''dispatch'', JNull]) s))))"
proof (cases "run_agent L (JStr ''researcher'') (JStr ''hi'') JNull")
  case (Inl e)
  obtain r s' where p: "publish_result L [(''error'', JStr (exn_str e))] ''error''
            (log_msg ERROR ''Agent command failed'' (JStr (exn_str e))
               (record_call (RunAgent (JStr ''researcher'') (JStr ''hi'') JNull)
                  (log_msg DEBUG ''Mapped verb to action'' (JStr ''dispatch'')
                     (log_msg INFO ''Received command'' (JList [JStr ''dispatch'', JNull]) s)))) = (r, s')"
    by (cases "publish_result L [(''error'', JStr (exn_str e))] ''error''
            (log_msg ERROR ''Agent command failed'' (JStr (exn_str e))
               (record_call (RunAgent (JStr ''researcher'') (JStr ''hi'') JNull)
                  (log_msg DEBUG ''Mapped verb to action'' (JStr ''dispatch'')
                     (log_msg INFO ''Received command'' (JList [JStr ''dispatch'', JNull]) s))))")
  have "r = None" using publish_result_no_exn p by (metis fst_conv)
  then show ?thesis using Inl p
    by (simp add: handle_message_def dispatch_researcher_routed handle_agent_command_def
          dict_get_default_def dispatch_researcher_body)
next
  case (Inr result)
  obtain r s' where p: "publish_result L result ''info''
            (record_call (RunAgent (JStr ''researcher'') (JStr ''hi'') JNull)
               (log_msg DEBUG ''Mapped verb to action'' (JStr ''dispatch'')
                  (log_msg INFO ''Received command'' (JList [JStr ''dispatch'', JNull]) s))) = (r, s')"
    by (cases "publish_result L result ''info''
            (record_call (RunAgent (JStr ''researcher'') (JStr ''hi'') JNull)
               (log_msg DEBUG ''Mapped verb to action'' (JStr ''dispatch'')
                  (log_msg INFO ''Received command'' (JList [JStr ''dispatch'', JNull]) s)))")
  have "r = None" using publish_result_no_exn p by (metis fst_conv)
  then show ?thesis using Inr p
    by (simp add: handle_message_def dispatch_researcher_routed handle_agent_command_def
          dict_get_default_def dispatch_researcher_body)
qed

lemma build_status_message_fields:
  "build_status_message r lv = Inr m \<Longrightarrow>
   sm_level m = lv \<and>
   sm_type m = (if truthy (dict_get r ''error'') then ''error'' else ''progress'')"
  by (auto simp add: build_status_message_def Let_def split: sum.splits bool.splits if_splits)

text \<open>
  C7, as stated, fails on a listener in mode \<^verbatim>\<open>critical\<close>: the agent is run, its result
  goes out at level \<^verbatim>\<open>info\<close>, the filter drops it, and no status message is published.
\<close>

theorem dispatch_researcher_critical_counterexample:
  "calls (snd (handle_message (demo_listener ''critical'') dispatch_researcher idle)) =
     [RunAgent (JStr ''researcher'') (JStr ''hi'') JNull] \<and>
   published (snd (handle_message (demo_listener ''critical'') dispatch_researcher idle)) = []"
  by code_simp

text \<open>
  C7, amended. For the inbound message
  \<^verbatim>\<open>{"verb":"dispatch","params":{"name":"researcher","input":"hi"}}\<close> the router sets the
  action \<^verbatim>\<open>run\<close> from the verb table and calls \<^verbatim>\<open>run_agent\<close> once, with agent name
  \<^verbatim>\<open>researcher\<close>, input \<^verbatim>\<open>hi\<close> and no model override, on every listener. When the
  run returns a result, the filter mode is not \<^verbatim>\<open>critical\<close>, the status message can be
  built and the store accepts it, exactly one status message is published, at level
  \<^verbatim>\<open>info\<close>, with type \<^verbatim>\<open>error\<close> when the result's \<^verbatim>\<open>error\<close> is truthy and
  \<^verbatim>\<open>progress\<close> otherwise; in mode \<^verbatim>\<open>critical\<close> the result is filtered and nothing is
  published. When the run raises and the store accepts the message, exactly one status
  message is published, at level \<^verbatim>\<open>error\<close>.
\<close>

theorem dispatch_researcher_scenario:
  "set_action
     [(''verb'', JStr ''dispatch''),
      (''params'', JDict [(''name'', JStr ''researcher''), (''input'', JStr ''hi'')])]
     ''dispatch'' =
     Inr [(''verb'', JStr ''dispatch''),
          (''params'', JDict [(''name'', JStr ''researcher''), (''input'', JStr ''hi''),
                              (''action'', JStr ''run'')])] \<and>
   fst (handle_message L dispatch_researcher s) = None \<and>
   calls (snd (handle_message L dispatch_researcher s)) =
     calls s @ [RunAgent (JStr ''researcher'') (JStr ''hi'') JNull] \<and>
   (run_agent L (JStr ''researcher'') (JStr ''hi'') JNull = Inr result \<and>
    filter_mode L \<noteq> ''critical'' \<and>
    build_status_message result ''info'' = Inr m \<and>
    redis_publish L (channel L @ '':status'') m = None \<longrightarrow>
      published (snd (handle_message L dispatch_researcher s)) =
        published s @ [(channel L @ '':status'', m)] \<and>
      sm_level m = ''info'' \<and>
      sm_type m = (if truthy (dict_get result ''error'') then ''error'' else ''progress'')) \<and>
   (run_agent L (JStr ''researcher'') (JStr ''hi'') JNull = Inr result \<and>
    filter_mode L = ''critical'' \<longrightarrow>
      published (snd (handle_message L dispatch_researcher s)) = published s) \<and>
   (run_agent L (JStr ''researcher'') (JStr ''hi'') JNull = Inl e \<and>
    redis_publish L (channel L @ '':status'')
      \<lparr>sm_agent_name = JStr ''unknown'', sm_task_id = JStr '''',
       sm_type = (if exn_str e = [] then ''progress'' else ''error''), sm_level = ''error'',
       sm_message = JStr (exn_str e), sm_metadata = JDict [], sm_progress = None\<rparr> = None \<longrightarrow>
      published (snd (handle_message L dispatch_researcher s)) =
        published s @
          [(channel L @ '':status'',
            \<lparr>sm_agent_name = JStr ''unknown'', sm_task_id = JStr '''',
             sm_type = (if exn_str e = [] then ''progress'' else ''error''), sm_level = ''error'',
             sm_message = JStr (exn_str e), sm_metadata = JDict [], sm_progress = None\<rparr>)])"
proof -
  have a: "set_action
     [(''verb'', JStr ''dispatch''),
      (''params'', JDict [(''name'', JStr ''researcher''), (''input'', JStr ''hi'')])]
     ''dispatch'' =
     Inr [(''verb'', JStr ''dispatch''),
          (''params'', JDict [(''name'', JStr ''researcher''), (''input'', JStr ''hi''),
                              (''action'', JStr ''run'')])]"
    by (simp add: set_action_def dict_contains_def dict_subscript_def VERB_MAP_def)
  have b: "fst (handle_message L dispatch_researcher s) = None"
    by (rule handle_message_no_exn)
  have c: "calls (snd (handle_message L dispatch_researcher s)) =
     calls s @ [RunAgent (JStr ''researcher'') (JStr ''hi'') JNull]"
    by (simp add: dispatch_researcher_handled publish_result_calls calls_log_msg
          calls_record_call split: sum.splits)
  have d: "published (snd (handle_message L dispatch_researcher s)) =
        published s @ [(channel L @ '':status'', m)] \<and>
      sm_level m = ''info'' \<and>
      sm_type m = (if truthy (dict_get result ''error'') then ''error'' else ''progress'')"
    if "run_agent L (JStr ''researcher'') (JStr ''hi'') JNull = Inr result"
      and "filter_mode L \<noteq> ''critical''"
      and "build_status_message result ''info'' = Inr m"
      and "redis_publish L (channel L @ '':status'') m = None"
  proof -
    have sp: "should_publish (filter_mode L) ''info'' = Inr True"
      using that(2) by (simp add: should_publish_info_level)
    show ?thesis
      using that(1) publish_result_sent [OF sp that(3) that(4)]
        build_status_message_fields [OF that(3)]
      by (simp add: dispatch_researcher_handled published_log_msg published_record_call)
  qed
  have f: "published (snd (handle_message L dispatch_researcher s)) = published s"
    if "run_agent L (JStr ''researcher'') (JStr ''hi'') JNull = Inr result"
      and "filter_mode L = ''critical''"
  proof -
    have sp: "should_publish (filter_mode L) ''info'' = Inr False"
      using that(2) by (simp add: should_publish_info_level)
    show ?thesis
      using that(1) publish_result_filtered [OF sp]
      by (simp add: dispatch_researcher_handled published_log_msg published_record_call)
  qed
  have g: "published (snd (handle_message L dispatch_researcher s)) =
        published s @
          [(channel L @ '':status'',
            \<lparr>sm_agent_name = JStr ''unknown'', sm_task_id = JStr '''',
             sm_type = (if exn_str e = [] then ''progress'' else ''error''), sm_level = ''error'',
             sm_message = JStr (exn_str e), sm_metadata = JDict [], sm_progress = None\<rparr>)]"
    if "run_agent L (JStr ''researcher'') (JStr ''hi'') JNull = Inl e"
      and "redis_publish L (channel L @ '':status'')
      \<lparr>sm_agent_name = JStr ''unknown'', sm_task_id = JStr '''',
       sm_type = (if exn_str e = [] then ''progress'' else ''error''), sm_level = ''error'',
       sm_message = JStr (exn_str e), sm_metadata = JDict [], sm_progress = None\<rparr> = None"
    using that(1) published_publish_result_error_level [OF that(2)]
    by (simp add: dispatch_researcher_handled published_log_msg published_record_call)
  show ?thesis using a b c d f g by blast
qed

theorem dispatch_researcher_scenario_witness:
  "calls (snd (handle_message (demo_listener ''compact'') dispatch_researcher idle)) =
     [RunAgent (JStr ''researcher'') (JStr ''hi'') JNull] \<and>
   published (snd (handle_message (demo_listener ''compact'') dispatch_researcher idle)) =
     [(''k0mmand3r:status'',
       \<lparr>sm_agent_name = JStr ''researcher'', sm_task_id = JStr '''', sm_type = ''progress'',
        sm_level = ''info'', sm_message = JStr ''done'', sm_metadata = JDict [],
        sm_progress = None\<rparr>)] \<and>
   published (snd (handle_message (failing_listener ''critical'') dispatch_researcher idle)) =
     [(''k0mmand3r:status'',
       \<lparr>sm_agent_name = JStr ''unknown'', sm_task_id = JStr '''', sm_type = ''error'',
        sm_level = ''error'', sm_message = JStr ''agent failed'', sm_metadata = JDict [],
        sm_progress = None\<rparr>)]"
proof -
  let ?L = "demo_listener ''compact''"
  let ?F = "failing_listener ''critical''"
  let ?r = "[(''agent_name'', JStr ''researcher''), (''success'', JBool True),
              (''output'', JStr ''done''), (''error'', JNull), (''metadata'', JDict [])]"
  let ?m = "\<lparr>sm_agent_name = JStr ''researcher'', sm_task_id = JStr '''', sm_type = ''progress'',
        sm_level = ''info'', sm_message = JStr ''done'', sm_metadata = JDict [],
        sm_progress = None\<rparr>"
  have ra: "run_agent ?L (JStr ''researcher'') (JStr ''hi'') JNull = Inr ?r"
    and fm: "filter_mode ?L \<noteq> ''critical''"
    and rp: "redis_publish ?L (channel ?L @ '':status'') ?m = None"
    and ch: "channel ?L = ''k0mmand3r''"
    by (simp_all add: demo_listener_def)
  have bm: "build_status_message ?r ''info'' = Inr ?m"
    by (simp add: build_status_message_def dict_get_default_def dict_get_def py_or_def
          progress_in_def dict_contains_def)
  note T = dispatch_researcher_scenario [where L = ?L and s = idle and result = ?r and m = ?m]
  have 1: "calls (snd (handle_message ?L dispatch_researcher idle)) =
     [RunAgent (JStr ''researcher'') (JStr ''hi'') JNull]"
    using T by (simp add: idle_def)
  have 2: "published (snd (handle_message ?L dispatch_researcher idle)) = [(''k0mmand3r:status'', ?m)]"
    using T ra fm bm rp by (simp add: idle_def ch)
  have fa: "run_agent ?F (JStr ''researcher'') (JStr ''hi'') JNull = Inl (RuntimeError ''agent failed'')"
    and fch: "channel ?F = ''k0mmand3r''"
    and frp: "\<And>m. redis_publish ?F (channel ?F @ '':status'') m = None"
    by (simp_all add: failing_listener_def demo_listener_def)
  have 3: "published (snd (handle_message ?F dispatch_researcher idle)) =
     [(''k0mmand3r:status'',
       \<lparr>sm_agent_name = JStr ''unknown'', sm_task_id = JStr '''', sm_type = ''error'',
        sm_level = ''error'', sm_message = JStr ''agent failed'', sm_metadata = JDict [],
        sm_progress = None\<rparr>)]"
    using dispatch_researcher_scenario [where L = ?F and s = idle
        and e = "RuntimeError ''agent failed''"] fa frp
    by (simp add: idle_def fch)
  show ?thesis using 1 2 3 by blast
qed

section \<open>Job functions: result shape\<close>

lemma crawl_url_job_shape:
  "\<exists>r. fst (crawl_url_job w url depth max_depth st) = Inr r \<and>
       dict_get r ''status'' \<in> {JStr ''success'', JStr ''error''} \<and>
       dict_get r ''job_id'' = JStr (job_id_of (current_job w))"
  by (auto simp add: crawl_url_job_def crawl_url_job_body_def Let_def crawl_success_def
        crawl_error_def dict_get_def split: prod.splits sum.splits result.splits if_splits)

lemma digest_url_job_shape:
  "\<exists>r. fst (digest_url_job w url depth st) = Inr r \<and>
       dict_get r ''status'' \<in> {JStr ''success'', JStr ''error''} \<and>
       dict_get r ''job_id'' = JStr (job_id_of (current_job w))"
  by (auto simp add: digest_url_job_def dict_get_def split: sum.splits)

lemma process_binary_content_job_shape:
  "\<exists>r. fst (process_binary_content_job w url content_bytes content_type st) = Inr r \<and>
       dict_get r ''status'' \<in> {JStr ''success'', JStr ''error''} \<and>
       dict_get r ''job_id'' = JStr (job_id_of (current_job w))"
  by (auto simp add: process_binary_content_job_def process_binary_content_job_body_def
        binary_error_def dict_get_def split: prod.splits sum.splits result.splits)

lemma multi_agent_coordination_job_shape:
  "\<exists>r. fst (multi_agent_coordination_job w coordinator_config_dict sub_agent_configs task
              coordination_strategy st) = Inr r \<and>
       dict_get r ''status'' \<in> {JStr ''success'', JStr ''error''} \<and>
       dict_get r ''job_id'' = JStr (job_id_of (adk_current_job w))"
  by (auto simp add: multi_agent_coordination_job_def multi_agent_coordination_job_body_def
        Let_def dict_get_def split: prod.splits sum.splits option.splits if_splits)

lemma execute_agent_shape:
  "\<exists>r. fst (execute_agent w agent_config task context parent_agent_id st) = Inr r \<and>
       dict_get r ''status'' \<in> {JStr ''success'', JStr ''error''} \<and>
       dict_get r ''job_id'' = JStr (job_id_of (adk_current_job w))"
  by (auto simp add: execute_agent_def execute_agent_body_def Let_def dict_get_def
        split: prod.splits sum.splits)

text \<open>
  C1. \<^verbatim>\<open>adk_agent_job\<close> with a configuration dictionary that has no \<^verbatim>\<open>name\<close>: the
  \<^verbatim>\<open>KeyError\<close> leaves the function, no dictionary is returned. The sibling
  \<^verbatim>\<open>multi_agent_coordination_job\<close> turns the same missing key, in its own
  configuration or in a sub-agent's, into an error dictionary with \<^verbatim>\<open>status\<close> and
  \<^verbatim>\<open>job_id\<close>.
\<close>

theorem adk_agent_job_raises_KeyError:
  "fst (adk_agent_job demo_adk_env [(''description'', JStr ''no name'')] ''task'' None None
          empty_adk_store) = Inl (KeyError ''name'') \<and>
   fst (multi_agent_coordination_job demo_adk_env [(''description'', JStr ''no name'')] []
          ''task'' ''sequential'' empty_adk_store) =
     Inr [(''status'', JStr ''error''), (''error'', JStr [CHR 0x27, CHR ''n'', CHR ''a'', CHR ''m'', CHR ''e'', CHR 0x27]),
          (''job_id'', JStr ''local'')] \<and>
   fst (multi_agent_coordination_job demo_adk_env
          [(''name'', JStr ''coordinator''), (''description'', JStr ''c'')]
          [[(''description'', JStr ''no name'')]]
          ''task'' ''sequential'' empty_adk_store) =
     Inr [(''status'', JStr ''error''), (''error'', JStr [CHR 0x27, CHR ''n'', CHR ''a'', CHR ''m'', CHR ''e'', CHR 0x27]),
          (''job_id'', JStr ''local'')]"
  by (simp add: adk_agent_job_def AgentConfig_from_dict_def dict_subscript_def
        multi_agent_coordination_job_def multi_agent_coordination_job_body_def
        demo_adk_env_def job_id_of_def)

section \<open>Approval wait\<close>

lemma approval_key_blocked:
  assumes "approval_publish w (''adk:agent:'' @ ctx_agent_id c @ '':approval'')
             [(''agent_id'', JStr (ctx_agent_id c)), (''job_id'', JStr (ctx_job_id c)),
              (''action'', JStr action), (''timestamp'', JInt (utcnow w))] = None"
    and "brpop w (''adk:agent:'' @ ctx_agent_id c @ '':approval:response'') timeout = None"
  shows "wait_for_approval w c action timeout st = None"
  using assms by (simp add: wait_for_approval_def wait_for_approval_body_def Let_def)

text \<open>
  With timeout 0 and nobody responding, the wait never returns: the request is
  published, and the pop blocks for ever.
\<close>

lemma wait_for_approval_zero_timeout:
  assumes "approval_publish w (''adk:agent:'' @ ctx_agent_id c @ '':approval'')
             [(''agent_id'', JStr (ctx_agent_id c)), (''job_id'', JStr (ctx_job_id c)),
              (''action'', JStr action), (''timestamp'', JInt (utcnow w))] = None"
    and "brpop_error w (''adk:agent:'' @ ctx_agent_id c @ '':approval:response'') = None"
    and "response_pushed w (''adk:agent:'' @ ctx_agent_id c @ '':approval:response'') = None"
  shows "wait_for_approval w c action 0 st = None"
proof -
  have "brpop w (''adk:agent:'' @ ctx_agent_id c @ '':approval:response'') 0 = None"
    using assms(2,3) by (simp add: brpop_def)
  then show ?thesis using assms(1) by (rule approval_key_blocked [rotated])
qed

lemma brpop_bounded:
  "timeout \<noteq> 0 \<Longrightarrow> \<exists>blocked r. brpop w key timeout = Some (blocked, r) \<and>
     (int blocked \<le> timeout \<or> blocked = 0)"
  by (auto simp add: brpop_def split: option.splits)

text \<open>
  With any other timeout the wait returns a \<^verbatim>\<open>Result\<close>, after at most \<open>timeout\<close>
  seconds.
\<close>

lemma wait_for_approval_bounded:
  assumes "timeout \<noteq> 0"
  shows "\<exists>blocked r st'.
           wait_for_approval w c action timeout st = Some (blocked, Inr r, st') \<and>
           (int blocked \<le> timeout \<or> blocked = 0)"
proof (cases "approval_publish w (''adk:agent:'' @ ctx_agent_id c @ '':approval'')
             [(''agent_id'', JStr (ctx_agent_id c)), (''job_id'', JStr (ctx_job_id c)),
              (''action'', JStr action), (''timestamp'', JInt (utcnow w))]")
  case (Some e)
  then show ?thesis
    by (simp add: wait_for_approval_def wait_for_approval_body_def Let_def)
next
  case None
  obtain blocked r where
    b: "brpop w (''adk:agent:'' @ ctx_agent_id c @ '':approval:response'') timeout =
          Some (blocked, r)"
    and t: "int blocked \<le> timeout \<or> blocked = 0"
    using brpop_bounded [OF assms] by blast
  show ?thesis
  proof (cases r)
    case (Inl e)
    then show ?thesis using None b t
      by (simp add: wait_for_approval_def wait_for_approval_body_def Let_def)
  next
    case (Inr popped)
    then show ?thesis using None b t
      by (cases "approval_decision popped timeout")
        (simp_all add: wait_for_approval_def wait_for_approval_body_def Let_def)
  qed
qed

lemma wait_for_approval_timed_out:
  assumes "approval_publish w (''adk:agent:'' @ ctx_agent_id c @ '':approval'')
             [(''agent_id'', JStr (ctx_agent_id c)), (''job_id'', JStr (ctx_job_id c)),
              (''action'', JStr action), (''timestamp'', JInt (utcnow w))] = None"
    and "brpop_error w (''adk:agent:'' @ ctx_agent_id c @ '':approval:response'') = None"
    and "response_pushed w (''adk:agent:'' @ ctx_agent_id c @ '':approval:response'') = None"
    and "0 < timeout"
  shows "\<exists>st'. wait_for_approval w c action timeout st =
           Some (nat timeout,
                 Inr (Failure (JStr (''Approval timeout after '' @ show_int timeout @ ''s''))),
                 st')"
  using assms
  by (simp add: wait_for_approval_def wait_for_approval_body_def brpop_def approval_decision_def
        Let_def)

lemma wait_for_approval_response:
  assumes "approval_publish w (''adk:agent:'' @ ctx_agent_id c @ '':approval'')
             [(''agent_id'', JStr (ctx_agent_id c)), (''job_id'', JStr (ctx_job_id c)),
              (''action'', JStr action), (''timestamp'', JInt (utcnow w))] = None"
    and "brpop w (''adk:agent:'' @ ctx_agent_id c @ '':approval:response'') timeout =
           Some (blocked, Inr (Some (Inr (JDict response))))"
  shows "\<exists>st'. wait_for_approval w c action timeout st =
           Some (blocked,
                 Inr (if truthy (dict_get response ''approved'') then Success True
                      else Failure (dict_get_default response ''reason''
                                      (JStr ''Approval denied''))),
                 st')"
  using assms
  by (simp add: wait_for_approval_def wait_for_approval_body_def approval_decision_def Let_def)

text \<open>
  C5. An approval wait with timeout 0 and no responder: the timeout goes to the blocking
  pop as it is, where 0 means no timeout, and the call never returns; it does not come
  back with the timeout failure. With timeout 1 the same wait returns the failure
  \<^verbatim>\<open>Approval timeout after 1s\<close> after one second.
\<close>

theorem wait_for_approval_blocks_at_zero:
  "wait_for_approval demo_adk_env demo_context ''deploy'' 0 empty_adk_store = None \<and>
   map_option (\<lambda>(blocked, r, s). (blocked, r))
     (wait_for_approval demo_adk_env demo_context ''deploy'' 1 empty_adk_store) =
     Some (1, Inr (Failure (JStr ''Approval timeout after 1s'')))"
  by (simp add: wait_for_approval_def wait_for_approval_body_def brpop_def approval_decision_def
        demo_adk_env_def show_int_def show_nat.simps)

section \<open>In-process state of the crawl jobs\<close>

lemma crawl_url_job_body_explicit:
  "crawl_url_job_body w url depth (Some m) job_id st =
   crawl_url_job_body w url depth None job_id (st\<lparr>crawler_max_depth := m\<rparr>)"
  by (simp add: crawl_url_job_body_def)

lemma crawl_url_job_body_max_depth:
  "crawler_max_depth (snd (crawl_url_job_body w url depth None job_id st)) = crawler_max_depth st"
  by (simp add: crawl_url_job_body_def Let_def split: sum.splits result.splits)

lemma crawl_url_job_max_depth_None:
  "crawler_max_depth (snd (crawl_url_job w url depth None st)) = crawler_max_depth st"
proof -
  obtain r st' where b: "crawl_url_job_body w url depth None (job_id_of (current_job w)) st = (r, st')"
    by (cases "crawl_url_job_body w url depth None (job_id_of (current_job w)) st")
  have "crawler_max_depth st' = crawler_max_depth st"
    using crawl_url_job_body_max_depth [of w url depth "job_id_of (current_job w)" st] b by simp
  then show ?thesis by (cases r) (simp_all add: crawl_url_job_def b)
qed

lemma crawl_url_job_explicit:
  "crawl_url_job w url depth (Some m) st =
   crawl_url_job w url depth None (st\<lparr>crawler_max_depth := m\<rparr>)"
  by (simp add: crawl_url_job_def crawl_url_job_body_explicit)

lemma crawl_url_job_body_result_depends:
  "crawler_max_depth st = crawler_max_depth st' \<Longrightarrow>
   fst (crawl_url_job_body w url depth None job_id st) =
   fst (crawl_url_job_body w url depth None job_id st')"
  by (simp add: crawl_url_job_body_def Let_def split: sum.splits result.splits)

lemma crawl_url_job_result_depends:
  assumes "crawler_max_depth st = crawler_max_depth st'"
  shows "fst (crawl_url_job w url depth None st) = fst (crawl_url_job w url depth None st')"
proof -
  let ?j = "job_id_of (current_job w)"
  obtain r s1 where b: "crawl_url_job_body w url depth None ?j st = (r, s1)"
    by (cases "crawl_url_job_body w url depth None ?j st")
  obtain r' s2 where b': "crawl_url_job_body w url depth None ?j st' = (r', s2)"
    by (cases "crawl_url_job_body w url depth None ?j st'")
  have "r = r'"
    using crawl_url_job_body_result_depends [OF assms, of w url depth ?j] b b' by simp
  then show ?thesis by (cases r') (simp_all add: crawl_url_job_def b b')
qed

text \<open>
  C6, as stated, fails: in a worker whose crawler starts with \<open>max_depth = 2\<close>, a crawl
  of a page at depth 0 without \<open>max_depth\<close> queues the page's link; the same call made
  after a crawl with \<open>max_depth = 0\<close> in the same process queues nothing.
\<close>

theorem crawl_url_job_leaks_max_depth_counterexample:
  "queued (snd (crawl_url_job demo_crawl_env ''https://b.com'' 0 None (fresh_process 2))) =
     [([JStr ''https://a.com/next''], 1)] \<and>
   queued (snd (crawl_url_job demo_crawl_env ''https://b.com'' 0 None
                  (snd (crawl_url_job demo_crawl_env ''https://a.com'' 0 (Some 0)
                          (fresh_process 2))))) = []"
  by (simp add: crawl_url_job_def crawl_url_job_body_def demo_crawl_env_def fresh_process_def
        apply_parsed_def dict_get_default_def py_set_def hashable_def)

text \<open>
  C6, amended. The in-process state a crawl job leaves behind is the \<open>max_depth\<close> of the
  module-level crawler. \<^verbatim>\<open>crawl_url_job\<close> with an explicit \<open>max_depth\<close> overwrites it
  and then behaves as a call without one; a call without \<open>max_depth\<close>,
  \<^verbatim>\<open>digest_url_job\<close> and \<^verbatim>\<open>process_binary_content_job\<close> leave it unchanged. The result
  of \<^verbatim>\<open>crawl_url_job\<close> with an explicit \<open>max_depth\<close> is the same whatever earlier
  invocations left in the process; without one it depends on the process only through
  that \<open>max_depth\<close>.
\<close>

theorem crawl_url_job_process_state:
  "crawl_url_job w url depth (Some m) st =
     crawl_url_job w url depth None (st\<lparr>crawler_max_depth := m\<rparr>) \<and>
   crawler_max_depth (snd (crawl_url_job w url depth (Some m) st)) = m \<and>
   crawler_max_depth (snd (crawl_url_job w url depth None st)) = crawler_max_depth st \<and>
   crawler_max_depth (snd (digest_url_job w url depth st)) = crawler_max_depth st \<and>
   crawler_max_depth (snd (process_binary_content_job w url content_bytes content_type st)) =
     crawler_max_depth st \<and>
   fst (crawl_url_job w url depth (Some m) st) = fst (crawl_url_job w url depth (Some m) st') \<and>
   (crawler_max_depth st = crawler_max_depth st' \<longrightarrow>
      fst (crawl_url_job w url depth None st) = fst (crawl_url_job w url depth None st'))"
proof -
  have a: "crawler_max_depth (snd (crawl_url_job w url depth (Some m) st)) = m"
    by (simp add: crawl_url_job_explicit crawl_url_job_max_depth_None)
  have b: "crawler_max_depth (snd (digest_url_job w url depth st)) = crawler_max_depth st"
    by (simp add: digest_url_job_def split: sum.splits)
  have c: "crawler_max_depth (snd (process_binary_content_job w url content_bytes content_type st)) =
     crawler_max_depth st"
    by (simp add: process_binary_content_job_def process_binary_content_job_body_def
          split: prod.splits sum.splits result.splits)
  have d: "fst (crawl_url_job w url depth (Some m) st) = fst (crawl_url_job w url depth (Some m) st')"
    by (simp add: crawl_url_job_explicit crawl_url_job_result_depends)
  show ?thesis
    using a b c d crawl_url_job_explicit [of w url depth m st]
      crawl_url_job_max_depth_None [of w url depth st]
      crawl_url_job_result_depends [of st st' w url depth]
    by blast
qed

theorem crawl_url_job_process_state_witness:
  "crawler_max_depth (snd (crawl_url_job demo_crawl_env ''https://a.com'' 0 (Some 0)
                             (fresh_process 2))) = 0 \<and>
   fst (crawl_url_job demo_crawl_env ''https://b.com'' 0 None (fresh_process 2)) =
   fst (crawl_url_job demo_crawl_env ''https://b.com'' 0 None
          ((fresh_process 2)\<lparr>queued := [([JStr ''https://z.com''], 3)]\<rparr>))"
proof -
  have h: "crawler_max_depth (fresh_process 2) =
           crawler_max_depth ((fresh_process 2)\<lparr>queued := [([JStr ''https://z.com''], 3)]\<rparr>)"
    by simp
  have 1: "crawler_max_depth (snd (crawl_url_job demo_crawl_env ''https://a.com'' 0 (Some 0)
                             (fresh_process 2))) = 0"
    using crawl_url_job_process_state [where w = demo_crawl_env and url = "''https://a.com''"
        and depth = 0 and m = 0 and st = "fresh_process 2"]
    by blast
  have 2: "fst (crawl_url_job demo_crawl_env ''https://b.com'' 0 None (fresh_process 2)) =
   fst (crawl_url_job demo_crawl_env ''https://b.com'' 0 None
          ((fresh_process 2)\<lparr>queued := [([JStr ''https://z.com''], 3)]\<rparr>))"
    using crawl_url_job_process_state [where w = demo_crawl_env and url = "''https://b.com''"
        and depth = 0 and st = "fresh_process 2"
        and st' = "(fresh_process 2)\<lparr>queued := [([JStr ''https://z.com''], 3)]\<rparr>"] h
    by blast
  show ?thesis using 1 2 by blast
qed

section \<open>Garbage collector: crawl-record eviction\<close>

lemma expired_cong: "kv st1 key = kv st key \<Longrightarrow> expired w c st1 key = expired w c st key"
  by (simp add: expired_def crawled_at_def)

lemma expired_deleted: "kv st key = None \<Longrightarrow> \<not> expired w c st key"
  by (simp add: expired_def crawled_at_def)

lemma process_key_body_cases:
  "process_key_body w (Naive c) key st = (r, st') \<Longrightarrow>
   (r \<noteq> Inr True \<and> st' = st) \<or>
   (r = Inr True \<and> expired w c st key \<and> st' = st\<lparr>kv := (kv st)(key := None)\<rparr>)"
  by (auto simp add: process_key_body_def expired_def crawled_at_def datetime_less_def
        split: option.splits sum.splits json.splits datetime.splits bool.splits if_splits)

lemma process_key_body_expired:
  assumes "redis_get_error w key = None" and "redis_delete_error w key = None"
    and "expired w c st key"
  shows "process_key_body w (Naive c) key st = (Inr True, st\<lparr>kv := (kv st)(key := None)\<rparr>)"
  using assms
  by (auto simp add: process_key_body_def expired_def crawled_at_def datetime_less_def
        split: option.splits sum.splits json.splits datetime.splits bool.splits if_splits)

lemma process_key_cases:
  "process_key w (Naive c) key (st, n, errs) = (st', n', errs') \<Longrightarrow>
   (st' = st \<and> n' = n) \<or>
   (expired w c st key \<and> st' = st\<lparr>kv := (kv st)(key := None)\<rparr> \<and> n' = Suc n \<and> errs' = errs)"
proof -
  assume a: "process_key w (Naive c) key (st, n, errs) = (st', n', errs')"
  obtain r s1 where b: "process_key_body w (Naive c) key st = (r, s1)"
    by (cases "process_key_body w (Naive c) key st")
  from process_key_body_cases [OF b] a b show ?thesis
    by (auto simp add: process_key_def split: sum.splits bool.splits)
qed

lemma process_key_expired:
  assumes "redis_get_error w key = None" and "redis_delete_error w key = None"
    and "expired w c st key"
  shows "process_key w (Naive c) key (st, n, errs) =
           (st\<lparr>kv := (kv st)(key := None)\<rparr>, Suc n, errs)"
  by (simp add: process_key_def process_key_body_expired [OF assms])

lemma process_key_not_expired:
  assumes "\<not> expired w c st key"
  shows "\<exists>errs'. process_key w (Naive c) key (st, n, errs) = (st, n, errs')"
proof -
  obtain st' n' errs' where a: "process_key w (Naive c) key (st, n, errs) = (st', n', errs')"
    by (cases "process_key w (Naive c) key (st, n, errs)")
  from process_key_cases [OF a] assms a show ?thesis by auto
qed

text \<open>Whatever the store does, a pass only ever deletes expired records.\<close>

lemma fold_process_key_safe:
  "fold (process_key w (Naive c)) ks (st, n, errs) = (st', n', errs') \<Longrightarrow>
   (\<forall>k. kv st' k = kv st k \<or> (expired w c st k \<and> k \<in> set ks \<and> kv st' k = None)) \<and>
   registries st' = registries st \<and> stale_reported st' = stale_reported st"
proof (induction ks arbitrary: st n errs)
  case Nil
  then show ?case by simp
next
  case (Cons key ks)
  obtain s1 n1 e1 where p: "process_key w (Naive c) key (st, n, errs) = (s1, n1, e1)"
    by (cases "process_key w (Naive c) key (st, n, errs)")
  have f: "fold (process_key w (Naive c)) ks (s1, n1, e1) = (st', n', errs')"
    using Cons.prems p by simp
  note IH = Cons.IH [OF f]
  from process_key_cases [OF p]
  consider (same) "s1 = st" | (del) "expired w c st key" "s1 = st\<lparr>kv := (kv st)(key := None)\<rparr>"
    by blast
  then show ?case
  proof cases
    case same
    then show ?thesis using IH by auto
  next
    case del
    have reg: "registries s1 = registries st" "stale_reported s1 = stale_reported st"
      using del(2) by simp_all
    have "kv st' k = kv st k \<or> (expired w c st k \<and> k \<in> set (key # ks) \<and> kv st' k = None)"
      for k
    proof (cases "k = key")
      case True
      have "kv s1 key = None" using del(2) by simp
      then have "\<not> expired w c s1 key" by (rule expired_deleted)
      then have "kv st' key = None" using IH \<open>kv s1 key = None\<close> by metis
      then show ?thesis using True del(1) by simp
    next
      case False
      then have eq: "kv s1 k = kv st k" using del(2) by simp
      then have "expired w c s1 k = expired w c st k" by (rule expired_cong)
      then show ?thesis using IH eq by (metis list.set_intros(2))
    qed
    then show ?thesis using IH reg by simp
  qed
qed

text \<open>When \<^verbatim>\<open>get\<close> and \<^verbatim>\<open>delete\<close> do not raise, a pass deletes every expired record
  among the keys it visits and counts each once.\<close>

lemma fold_process_key_complete:
  "\<forall>k \<in> set ks. redis_get_error w k = None \<and> redis_delete_error w k = None \<Longrightarrow>
   fold (process_key w (Naive c)) ks (st, n, errs) = (st', n', errs') \<Longrightarrow>
   (\<forall>k. kv st' k = (if k \<in> set ks \<and> expired w c st k then None else kv st k)) \<and>
   n' = n + card {k \<in> set ks. expired w c st k}"
proof (induction ks arbitrary: st n errs)
  case Nil
  then show ?case by simp
next
  case (Cons key ks)
  have ok: "redis_get_error w key = None" "redis_delete_error w key = None"
    and oks: "\<forall>k \<in> set ks. redis_get_error w k = None \<and> redis_delete_error w k = None"
    using Cons.prems(1) by simp_all
  show ?case
  proof (cases "expired w c st key")
    case True
    let ?s1 = "st\<lparr>kv := (kv st)(key := None)\<rparr>"
    have f: "fold (process_key w (Naive c)) ks (?s1, Suc n, errs) = (st', n', errs')"
      using Cons.prems(2) process_key_expired [OF ok True] by simp
    note IH = Cons.IH [OF oks f]
    have ex: "expired w c ?s1 k = (k \<noteq> key \<and> expired w c st k)" for k
    proof (cases "k = key")
      case True
      then show ?thesis using expired_deleted [of ?s1 key w c] by simp
    next
      case False
      then show ?thesis using expired_cong [of ?s1 k st w c] by simp
    qed
    have sets: "{k \<in> set ks. expired w c ?s1 k} = {k \<in> set ks. expired w c st k} - {key}"
      using ex by auto
    have ins: "{k \<in> set (key # ks). expired w c st k} = insert key {k \<in> set ks. expired w c st k}"
      using True by auto
    have fin: "finite {k \<in> set ks. expired w c st k}" by simp
    have card: "card {k \<in> set (key # ks). expired w c st k} =
                Suc (card {k \<in> set ks. expired w c ?s1 k})"
      using card.insert_remove [OF fin, of key] by (simp only: ins sets)
    have kvs: "kv st' k = (if k \<in> set (key # ks) \<and> expired w c st k then None else kv st k)" for k
      using IH ex [of k] True by (cases "k = key") auto
    show ?thesis using kvs IH card by simp
  next
    case False
    obtain e1 where p: "process_key w (Naive c) key (st, n, errs) = (st, n, e1)"
      using process_key_not_expired [OF False] by blast
    have f: "fold (process_key w (Naive c)) ks (st, n, e1) = (st', n', errs')"
      using Cons.prems(2) p by simp
    note IH = Cons.IH [OF oks f]
    have sets: "{k \<in> set (key # ks). expired w c st k} = {k \<in> set ks. expired w c st k}"
      using False by auto
    have kvs: "kv st' k = (if k \<in> set (key # ks) \<and> expired w c st k then None else kv st k)" for k
      using IH False by (cases "k = key") auto
    show ?thesis using kvs IH sets by simp
  qed
qed

lemma scan_loop_scan_keys:
  "scan_loop fuel w cutoff cursor acc =
     (case scan_keys fuel (scan w) cursor of
        None \<Rightarrow> None
      | Some (ks, e) \<Rightarrow> Some (e, fold (process_key w cutoff) ks acc))"
  by (induction fuel arbitrary: cursor acc) (auto split: sum.splits option.splits)

section \<open>Garbage collector: what the later phases leave alone\<close>

lemma clean_job_body_frame:
  "kv (snd (clean_job_body w cutoff b kind queue j st)) = kv st \<and>
   stale_reported (snd (clean_job_body w cutoff b kind queue j st)) = stale_reported st"
  by (simp add: clean_job_body_def split: sum.splits option.splits bool.splits)

lemma clean_job_frame:
  "kv (fst (clean_job w cutoff b kind queue j acc)) = kv (fst acc) \<and>
   stale_reported (fst (clean_job w cutoff b kind queue j acc)) = stale_reported (fst acc)"
proof -
  obtain st n where a: "acc = (st, n)" by (cases acc)
  obtain r s1 where c: "clean_job_body w cutoff b kind queue j st = (r, s1)"
    by (cases "clean_job_body w cutoff b kind queue j st")
  have "kv s1 = kv st \<and> stale_reported s1 = stale_reported st"
    using clean_job_body_frame [of w cutoff b kind queue j st] c by simp
  then show ?thesis
    by (simp add: clean_job_def a c split: sum.splits bool.splits)
qed

lemma fold_clean_job_frame:
  "kv (fst (fold (clean_job w cutoff b kind queue) ids acc)) = kv (fst acc) \<and>
   stale_reported (fst (fold (clean_job w cutoff b kind queue) ids acc)) =
     stale_reported (fst acc)"
  by (induction ids arbitrary: acc) (simp_all add: clean_job_frame)

lemma clean_failed_frame:
  assumes "clean_failed w cutoff b cf queue (st, res) = (r, st', res')"
  shows "kv st' = kv st \<and> stale_reported st' = stale_reported st \<and>
         crawl_data_cleaned res' = crawl_data_cleaned res \<and> errors res' = errors res"
proof -
  let ?f = "fold (clean_job w cutoff b FailedJobs queue) (registries st FailedJobs queue)
              (st, failed_jobs_cleaned res)"
  obtain s1 n1 where f: "?f = (s1, n1)" by (cases ?f)
  have "kv s1 = kv st \<and> stale_reported s1 = stale_reported st"
    using fold_clean_job_frame [of w cutoff b FailedJobs queue "registries st FailedJobs queue"
        "(st, failed_jobs_cleaned res)"] f by simp
  then show ?thesis using assms f
    by (auto simp add: clean_failed_def split: if_splits option.splits)
qed

lemma clean_finished_frame:
  assumes "clean_finished w cutoff b cff queue (st, res) = (r, st', res')"
  shows "kv st' = kv st \<and> stale_reported st' = stale_reported st \<and>
         crawl_data_cleaned res' = crawl_data_cleaned res \<and> errors res' = errors res"
proof -
  let ?f = "fold (clean_job w cutoff b FinishedJobs queue) (registries st FinishedJobs queue)
              (st, finished_jobs_cleaned res)"
  obtain s1 n1 where f: "?f = (s1, n1)" by (cases ?f)
  have "kv s1 = kv st \<and> stale_reported s1 = stale_reported st"
    using fold_clean_job_frame [of w cutoff b FinishedJobs queue
        "registries st FinishedJobs queue" "(st, finished_jobs_cleaned res)"] f by simp
  then show ?thesis using assms f
    by (auto simp add: clean_finished_def split: if_splits option.splits)
qed

lemma clean_queues_frame:
  "clean_queues w cutoff b cf cff queues (st, res) = (r, st', res') \<Longrightarrow>
   kv st' = kv st \<and> stale_reported st' = stale_reported st \<and>
   crawl_data_cleaned res' = crawl_data_cleaned res \<and> errors res' = errors res"
proof (induction queues arbitrary: st res)
  case Nil
  then show ?case by simp
next
  case (Cons queue queues)
  obtain r1 s1 res1 where a: "clean_failed w cutoff b cf queue (st, res) = (r1, s1, res1)"
    by (cases "clean_failed w cutoff b cf queue (st, res)")
  note A = clean_failed_frame [OF a]
  show ?case
  proof (cases r1)
    case (Some e)
    then show ?thesis using Cons.prems a A by simp
  next
    case None
    obtain r2 s2 res2 where c: "clean_finished w cutoff b cff queue (s1, res1) = (r2, s2, res2)"
      by (cases "clean_finished w cutoff b cff queue (s1, res1)")
    note C = clean_finished_frame [OF c]
    show ?thesis
    proof (cases r2)
      case (Some e)
      then show ?thesis using Cons.prems a A c C None by simp
    next
      case n2: None
      have "clean_queues w cutoff b cf cff queues (s2, res2) = (r, st', res')"
        using Cons.prems a c None n2 by simp
      from Cons.IH [OF this] show ?thesis using A C by simp
    qed
  qed
qed

text \<open>
  Registry eviction leaves the crawl records, the crawl counter and the stale reports
  alone, and appends at most its own message to the errors: exceptions on single jobs
  add nothing.
\<close>

lemma clean_job_registries_frame:
  assumes "clean_job_registries w cutoff b cf cff (st, res) = (st', res')"
  shows "kv st' = kv st \<and> stale_reported st' = stale_reported st \<and>
         crawl_data_cleaned res' = crawl_data_cleaned res \<and>
         (errors res' = errors res \<or>
          (\<exists>e. errors res' = errors res @ [''Job registry cleanup error: '' @ exn_str e])) \<and>
         (\<forall>e. get_all_queues w = Inl e \<longrightarrow>
            errors res' = errors res @ [''Job registry cleanup error: '' @ exn_str e])"
proof (cases "get_all_queues w")
  case (Inl e)
  then show ?thesis using assms by (auto simp add: clean_job_registries_def)
next
  case (Inr queues)
  obtain r s1 res1 where c: "clean_queues w cutoff b cf cff queues (st, res) = (r, s1, res1)"
    by (cases "clean_queues w cutoff b cf cff queues (st, res)")
  note C = clean_queues_frame [OF c]
  show ?thesis using assms Inr c C
    by (cases r) (auto simp add: clean_job_registries_def)
qed

lemma check_queues_frame:
  "kv (snd (check_queues w b names st)) = kv st"
proof (induction names arbitrary: st)
  case Nil
  then show ?case by simp
next
  case (Cons n names)
  show ?case
  proof (cases b)
    case False
    then show ?thesis by simp
  next
    case True
    show ?thesis
    proof (cases "scard w (''crawl:queue:'' @ n)")
      case (Inl e)
      then show ?thesis using True by simp
    next
      case (Inr queue_size)
      then show ?thesis using True Cons.IH by simp
    qed
  qed
qed


lemma check_queues_first_error:
  "scard w (''crawl:queue:'' @ n) = Inl e \<Longrightarrow>
   check_queues w True (n # names) st = (Some e, st)"
  by simp

text \<open>Stale-queue detection leaves the crawl records and the counters alone.\<close>

lemma check_stale_queues_frame:
  assumes "check_stale_queues w b (st, res) = (st', res')"
  shows "kv st' = kv st \<and> crawl_data_cleaned res' = crawl_data_cleaned res \<and>
         failed_jobs_cleaned res' = failed_jobs_cleaned res \<and>
         finished_jobs_cleaned res' = finished_jobs_cleaned res \<and>
         (errors res' = errors res \<or>
          (\<exists>e. errors res' = errors res @ [''Queue cleanup error: '' @ exn_str e])) \<and>
         (\<forall>e. b \<and> scard w ''crawl:queue:default'' = Inl e \<longrightarrow>
            errors res' = errors res @ [''Queue cleanup error: '' @ exn_str e])"
proof -
  obtain r s1 where c: "check_queues w b [''default'', ''high'', ''low''] st = (r, s1)"
    by (cases "check_queues w b [''default'', ''high'', ''low''] st")
  have k: "kv s1 = kv st"
    using check_queues_frame [of w b "[''default'', ''high'', ''low'']" st] c by simp
  have f: "r = Some e \<and> s1 = st" if "b" and "scard w ''crawl:queue:default'' = Inl e" for e
    using that c by simp
  show ?thesis using assms c k f
    by (cases r) (auto simp add: check_stale_queues_def)
qed

section \<open>Garbage collector: the job as a whole\<close>

lemma cutoff_time_Naive:
  "cutoff_time now d = Inr x \<Longrightarrow> x = Naive (now - d * day_us)"
  by (auto simp add: cutoff_time_def split: if_splits)

lemma clean_crawl_data_cases:
  assumes "clean_crawl_data fuel w (Naive c) st no_results = Some (b, st1, res1)"
  shows "(\<exists>e. get_redis_connection w = Some e \<and> \<not> b \<and> st1 = st \<and>
              crawl_data_cleaned res1 = 0 \<and>
              errors res1 = [''Crawl data cleanup error: '' @ exn_str e]) \<or>
         (get_redis_connection w = None \<and> b \<and>
          (\<exists>ks e n errs.
              scan_keys fuel (scan w) 0 = Some (ks, e) \<and>
              fold (process_key w (Naive c)) ks (st, 0, []) = (st1, n, errs) \<and>
              (case e of
                 None \<Rightarrow> crawl_data_cleaned res1 = n \<and> errors res1 = errs
               | Some x \<Rightarrow>
                   crawl_data_cleaned res1 = 0 \<and>
                   errors res1 = errs @ [''Crawl data cleanup error: '' @ exn_str x])))"
proof (cases "get_redis_connection w")
  case (Some e)
  then show ?thesis using assms by (auto simp add: clean_crawl_data_def no_results_def)
next
  case None
  show ?thesis
  proof (cases "scan_keys fuel (scan w) 0")
    case n: None
    then show ?thesis using assms None
      by (simp add: clean_crawl_data_def scan_loop_scan_keys)
  next
    case (Some p)
    obtain ks e where p: "p = (ks, e)" by (cases p)
    obtain s n errs where f: "fold (process_key w (Naive c)) ks (st, 0, []) = (s, n, errs)"
      by (cases "fold (process_key w (Naive c)) ks (st, 0, [])")
    show ?thesis using assms None Some p f
      by (cases e) (auto simp add: clean_crawl_data_def scan_loop_scan_keys no_results_def)
  qed
qed

lemma run_phases_chain:
  assumes "run_phases fuel w cutoff cf cff st = Some (st', res)"
  shows "\<exists>b st1 res1 st2 res2.
           clean_crawl_data fuel w cutoff st no_results = Some (b, st1, res1) \<and>
           clean_job_registries w cutoff b cf cff (st1, res1) = (st2, res2) \<and>
           check_stale_queues w b (st2, res2) = (st', res)"
proof (cases "clean_crawl_data fuel w cutoff st no_results")
  case None
  then show ?thesis using assms by (simp add: run_phases_def)
next
  case (Some p)
  obtain b st1 res1 where p: "p = (b, st1, res1)" by (cases p)
  obtain st2 res2 where c: "clean_job_registries w cutoff b cf cff (st1, res1) = (st2, res2)"
    by (cases "clean_job_registries w cutoff b cf cff (st1, res1)")
  show ?thesis using assms Some p c by (simp add: run_phases_def)
qed

lemma cleanup_old_data_job_cases:
  assumes "cleanup_old_data_job fuel w d cf cff st = Some (r, st')"
  shows "st' = st \<or>
         (\<exists>res. cutoff_time (gc_utcnow w) d = Inr (Naive (gc_utcnow w - d * day_us)) \<and>
                run_phases fuel w (Naive (gc_utcnow w - d * day_us)) cf cff st = Some (st', res))"
proof (cases "get_stats w st")
  case (Inl e)
  then show ?thesis using assms
    by (simp add: cleanup_old_data_job_def cleanup_old_data_job_body_def)
next
  case (Inr sb)
  show ?thesis
  proof (cases "cutoff_time (gc_utcnow w) d")
    case (Inl e)
    then show ?thesis using assms Inr
      by (simp add: cleanup_old_data_job_def cleanup_old_data_job_body_def)
  next
    case c: (Inr cutoff)
    have cn: "cutoff = Naive (gc_utcnow w - d * day_us)"
      using cutoff_time_Naive [OF c] .
    show ?thesis
    proof (cases "run_phases fuel w cutoff cf cff st")
      case None
      then show ?thesis using assms Inr c
        by (simp add: cleanup_old_data_job_def cleanup_old_data_job_body_def)
    next
      case (Some p)
      obtain s2 res where p: "p = (s2, res)" by (cases p)
      have "s2 = st'" using assms Inr c Some p
        by (cases "get_stats w s2")
          (simp_all add: cleanup_old_data_job_def cleanup_old_data_job_body_def)
      then show ?thesis using Some p c cn by simp
    qed
  qed
qed

lemma cleanup_old_data_job_success:
  assumes "cleanup_old_data_job fuel w d cf cff st = Some (r, st')"
    and "get_stats w st = Inr sb"
    and "cutoff_time (gc_utcnow w) d = Inr cutoff"
    and "get_stats w st' = Inr sa"
  shows "\<exists>res. run_phases fuel w cutoff cf cff st = Some (st', res) \<and>
               r = Inr [(''status'', JStr ''success''), (''stats_before'', JDict sb),
                        (''stats_after'', JDict sa),
                        (''cleanup_results'', JDict (cleanup_results_dict res)),
                        (''max_age_days'', JInt d),
                        (''job_id'', JStr (job_id_of (gc_current_job w)))]"
proof (cases "run_phases fuel w cutoff cf cff st")
  case None
  then show ?thesis using assms
    by (simp add: cleanup_old_data_job_def cleanup_old_data_job_body_def)
next
  case (Some p)
  obtain s2 res where p: "p = (s2, res)" by (cases p)
  have s2: "s2 = st'" using assms(1,2,3) Some p
    by (cases "get_stats w s2")
      (simp_all add: cleanup_old_data_job_def cleanup_old_data_job_body_def)
  show ?thesis using assms Some p s2
    by (simp add: cleanup_old_data_job_def cleanup_old_data_job_body_def)
qed

text \<open>The crawl records after the job are the crawl records after the first phase.\<close>

lemma run_phases_kv:
  assumes "run_phases fuel w (Naive c) cf cff st = Some (st', res)"
  shows "(\<forall>k. kv st' k = kv st k) \<or>
         (get_redis_connection w = None \<and>
          (\<exists>ks e n errs st1.
              scan_keys fuel (scan w) 0 = Some (ks, e) \<and>
              fold (process_key w (Naive c)) ks (st, 0, []) = (st1, n, errs) \<and>
              kv st' = kv st1 \<and>
              (e = None \<longrightarrow> crawl_data_cleaned res = n)))"
proof -
  obtain b st1 res1 st2 res2 where
    p1: "clean_crawl_data fuel w (Naive c) st no_results = Some (b, st1, res1)" and
    p2: "clean_job_registries w (Naive c) b cf cff (st1, res1) = (st2, res2)" and
    p3: "check_stale_queues w b (st2, res2) = (st', res)"
    using run_phases_chain [OF assms] by blast
  have k: "kv st' = kv st1" and n: "crawl_data_cleaned res = crawl_data_cleaned res1"
    using clean_job_registries_frame [OF p2] check_stale_queues_frame [OF p3] by simp_all
  from clean_crawl_data_cases [OF p1] show ?thesis
  proof
    assume "\<exists>e. get_redis_connection w = Some e \<and> \<not> b \<and> st1 = st \<and>
              crawl_data_cleaned res1 = 0 \<and>
              errors res1 = [''Crawl data cleanup error: '' @ exn_str e]"
    then show ?thesis using k by auto
  next
    assume "get_redis_connection w = None \<and> b \<and>
          (\<exists>ks e n errs.
              scan_keys fuel (scan w) 0 = Some (ks, e) \<and>
              fold (process_key w (Naive c)) ks (st, 0, []) = (st1, n, errs) \<and>
              (case e of
                 None \<Rightarrow> crawl_data_cleaned res1 = n \<and> errors res1 = errs
               | Some x \<Rightarrow>
                   crawl_data_cleaned res1 = 0 \<and>
                   errors res1 = errs @ [''Crawl data cleanup error: '' @ exn_str x]))"
    then obtain ks e n errs where
      g: "get_redis_connection w = None" and
      s: "scan_keys fuel (scan w) 0 = Some (ks, e)" and
      f: "fold (process_key w (Naive c)) ks (st, 0, []) = (st1, n, errs)" and
      c: "e = None \<longrightarrow> crawl_data_cleaned res1 = n"
      by (auto split: option.splits)
    show ?thesis using g s f c k n by auto
  qed
qed

section \<open>Garbage collector: safety of the sweep\<close>

lemma expired_crawled_at:
  "crawled_at w st key = Some (Naive t) \<Longrightarrow> expired w c st key = (t < c)"
  by (simp add: expired_def)

lemma gc_only_expired_removed:
  assumes "cleanup_old_data_job fuel w d cf cff st = Some (r, st')"
  shows "kv st' key = kv st key \<or>
         (expired w (gc_utcnow w - d * day_us) st key \<and> kv st' key = None)"
proof -
  let ?c = "gc_utcnow w - d * day_us"
  from cleanup_old_data_job_cases [OF assms] show ?thesis
  proof
    assume "st' = st"
    then show ?thesis by simp
  next
    assume "\<exists>res. cutoff_time (gc_utcnow w) d = Inr (Naive ?c) \<and>
                run_phases fuel w (Naive ?c) cf cff st = Some (st', res)"
    then obtain res where rp: "run_phases fuel w (Naive ?c) cf cff st = Some (st', res)"
      by blast
    from run_phases_kv [OF rp] show ?thesis
    proof
      assume "\<forall>k. kv st' k = kv st k"
      then show ?thesis by simp
    next
      assume "get_redis_connection w = None \<and>
          (\<exists>ks e n errs st1.
              scan_keys fuel (scan w) 0 = Some (ks, e) \<and>
              fold (process_key w (Naive ?c)) ks (st, 0, []) = (st1, n, errs) \<and>
              kv st' = kv st1 \<and>
              (e = None \<longrightarrow> crawl_data_cleaned res = n))"
      then obtain ks n errs st1 where
        f: "fold (process_key w (Naive ?c)) ks (st, 0, []) = (st1, n, errs)" and
        k: "kv st' = kv st1"
        by blast
      from fold_process_key_safe [OF f] k show ?thesis by metis
    qed
  qed
qed

lemma run_phases_connected:
  assumes "run_phases fuel w (Naive c) cf cff st = Some (st', res)"
    and "get_redis_connection w = None"
    and "scan_keys fuel (scan w) 0 = Some (ks, e)"
  shows "\<exists>n errs st1.
           fold (process_key w (Naive c)) ks (st, 0, []) = (st1, n, errs) \<and>
           kv st' = kv st1 \<and> (e = None \<longrightarrow> crawl_data_cleaned res = n)"
proof -
  obtain b st1 res1 st2 res2 where
    p1: "clean_crawl_data fuel w (Naive c) st no_results = Some (b, st1, res1)" and
    p2: "clean_job_registries w (Naive c) b cf cff (st1, res1) = (st2, res2)" and
    p3: "check_stale_queues w b (st2, res2) = (st', res)"
    using run_phases_chain [OF assms(1)] by blast
  have k: "kv st' = kv st1" and n: "crawl_data_cleaned res = crawl_data_cleaned res1"
    using clean_job_registries_frame [OF p2] check_stale_queues_frame [OF p3] by simp_all
  from clean_crawl_data_cases [OF p1] assms(2,3)
  obtain n errs where
    f: "fold (process_key w (Naive c)) ks (st, 0, []) = (st1, n, errs)" and
    c: "e = None \<longrightarrow> crawl_data_cleaned res1 = n"
    by (auto split: option.splits)
  show ?thesis using f c k n by auto
qed

lemma gc_expired_removed_and_counted:
  assumes run: "cleanup_old_data_job fuel w d cf cff st = Some (r, st')"
    and sb: "get_stats w st = Inr sb" and sa: "get_stats w st' = Inr sa"
    and cut: "cutoff_time (gc_utcnow w) d = Inr cutoff"
    and conn: "get_redis_connection w = None"
    and sc: "scan_keys fuel (scan w) 0 = Some (ks, None)"
    and ok: "\<forall>k \<in> set ks. redis_get_error w k = None \<and> redis_delete_error w k = None"
  shows "(\<forall>k. kv st' k =
              (if k \<in> set ks \<and> expired w (gc_utcnow w - d * day_us) st k then None
               else kv st k)) \<and>
         (\<exists>result. r = Inr result \<and> dict_get result ''status'' = JStr ''success'' \<and>
            cleanup_result result ''crawl_data_cleaned'' =
              JInt (int (card {k \<in> set ks. expired w (gc_utcnow w - d * day_us) st k})))"
proof -
  let ?c = "gc_utcnow w - d * day_us"
  have cn: "cutoff = Naive ?c" using cutoff_time_Naive [OF cut] .
  obtain res where rp: "run_phases fuel w (Naive ?c) cf cff st = Some (st', res)"
    and r: "r = Inr [(''status'', JStr ''success''), (''stats_before'', JDict sb),
                        (''stats_after'', JDict sa),
                        (''cleanup_results'', JDict (cleanup_results_dict res)),
                        (''max_age_days'', JInt d),
                        (''job_id'', JStr (job_id_of (gc_current_job w)))]"
    using cleanup_old_data_job_success [OF run sb cut sa] cn by blast
  from run_phases_connected [OF rp conn sc]
  obtain n errs st1 where
    f: "fold (process_key w (Naive ?c)) ks (st, 0, []) = (st1, n, errs)" and
    k: "kv st' = kv st1" and
    c: "crawl_data_cleaned res = n"
    by auto
  note F = fold_process_key_complete [OF ok f]
  have 1: "\<forall>k. kv st' k = (if k \<in> set ks \<and> expired w ?c st k then None else kv st k)"
    using F k by simp
  have 2: "cleanup_result
             [(''status'', JStr ''success''), (''stats_before'', JDict sb),
              (''stats_after'', JDict sa),
              (''cleanup_results'', JDict (cleanup_results_dict res)),
              (''max_age_days'', JInt d),
              (''job_id'', JStr (job_id_of (gc_current_job w)))] ''crawl_data_cleaned'' =
           JInt (int (card {k \<in> set ks. expired w ?c st k}))"
    using F c by (simp add: cleanup_result_def dict_get_def cleanup_results_dict_def)
  show ?thesis using 1 2 r by (simp add: dict_get_def)
qed

text \<open>What a run that returns has done to the crawl records.\<close>

lemma gc_sweep:
  assumes "cleanup_old_data_job fuel w max_age_days clean_failed_jobs clean_finished_jobs st =
             Some (r, st')"
  shows "(crawled_at w st key = Some (Naive t) \<and> gc_utcnow w - max_age_days * day_us \<le> t \<longrightarrow>
            kv st' key = kv st key) \<and>
         (kv st' key \<noteq> kv st key \<longrightarrow>
            (\<exists>t'. crawled_at w st key = Some (Naive t') \<and>
                  t' < gc_utcnow w - max_age_days * day_us) \<and> kv st' key = None) \<and>
         (get_stats w st = Inr stats_before \<and> get_stats w st' = Inr stats_after \<and>
          cutoff_time (gc_utcnow w) max_age_days = Inr cutoff \<and>
          get_redis_connection w = None \<and>
          scan_keys fuel (scan w) 0 = Some (keys, None) \<and>
          (\<forall>k \<in> set keys. redis_get_error w k = None \<and> redis_delete_error w k = None) \<longrightarrow>
            (\<forall>k \<in> set keys. \<forall>t'.
                crawled_at w st k = Some (Naive t') \<and>
                t' < gc_utcnow w - max_age_days * day_us \<longrightarrow> kv st' k = None) \<and>
            (\<exists>result. r = Inr result \<and> dict_get result ''status'' = JStr ''success'' \<and>
               cleanup_result result ''crawl_data_cleaned'' =
                 JInt (int (card {k \<in> set keys.
                        expired w (gc_utcnow w - max_age_days * day_us) st k})))) \<and>
         (case cleanup_old_data_job 5 demo_gc_env 7 True True demo_gc_state of
            Some (Inr result, s) \<Rightarrow> cleanup_result result ''crawl_data_cleaned'' = JInt 1
          | _ \<Rightarrow> False)"
proof -
  let ?c = "gc_utcnow w - max_age_days * day_us"
  note A = gc_only_expired_removed [OF assms, of key]
  have 1: "crawled_at w st key = Some (Naive t) \<and> ?c \<le> t \<longrightarrow> kv st' key = kv st key"
    using A expired_crawled_at [of w st key t ?c] by auto
  have ex: "expired w ?c st key \<Longrightarrow> \<exists>t'. crawled_at w st key = Some (Naive t') \<and> t' < ?c"
    by (auto simp add: expired_def split: option.splits datetime.splits)
  have 2: "kv st' key \<noteq> kv st key \<longrightarrow>
            (\<exists>t'. crawled_at w st key = Some (Naive t') \<and> t' < ?c) \<and> kv st' key = None"
    using A ex by blast
  have 3: "(\<forall>k \<in> set keys. \<forall>t'.
                crawled_at w st k = Some (Naive t') \<and> t' < ?c \<longrightarrow> kv st' k = None) \<and>
            (\<exists>result. r = Inr result \<and> dict_get result ''status'' = JStr ''success'' \<and>
               cleanup_result result ''crawl_data_cleaned'' =
                 JInt (int (card {k \<in> set keys. expired w ?c st k})))"
    if "get_stats w st = Inr stats_before" and "get_stats w st' = Inr stats_after"
      and "cutoff_time (gc_utcnow w) max_age_days = Inr cutoff"
      and "get_redis_connection w = None"
      and "scan_keys fuel (scan w) 0 = Some (keys, None)"
      and "\<forall>k \<in> set keys. redis_get_error w k = None \<and> redis_delete_error w k = None"
  proof -
    note B = gc_expired_removed_and_counted [OF assms that]
    have "kv st' k = None" if "k \<in> set keys" and "crawled_at w st k = Some (Naive t')"
      and "t' < ?c" for k t'
      using B that expired_crawled_at [of w st k t' ?c] by simp
    then show ?thesis using B by blast
  qed
  have 4: "(case cleanup_old_data_job 5 demo_gc_env 7 True True demo_gc_state of
            Some (Inr result, s) \<Rightarrow> cleanup_result result ''crawl_data_cleaned'' = JInt 1
          | _ \<Rightarrow> False)"
    by code_simp
  show ?thesis using 1 2 3 4 by blast
qed

text \<open>A run returns as soon as the scan comes back to cursor 0, or raises, within the fuel.\<close>

lemma cleanup_old_data_job_returns:
  assumes "scan_keys fuel (scan w) 0 = Some (ks, e)"
  shows "\<exists>r st'. cleanup_old_data_job fuel w d cf cff st = Some (r, st')"
proof -
  have c: "clean_crawl_data fuel w cutoff st no_results \<noteq> None" for cutoff
    using assms
    by (cases e)
      (auto simp add: clean_crawl_data_def scan_loop_scan_keys split: option.splits prod.splits)
  have rp: "run_phases fuel w cutoff cf cff st \<noteq> None" for cutoff
    using c [of cutoff] by (auto simp add: run_phases_def split: option.splits)
  have "cleanup_old_data_job_body fuel w d cf cff (job_id_of (gc_current_job w)) st \<noteq> None"
  proof (cases "get_stats w st")
    case (Inl x)
    then show ?thesis by (simp add: cleanup_old_data_job_body_def)
  next
    case sb: (Inr stats_before)
    show ?thesis
    proof (cases "cutoff_time (gc_utcnow w) d")
      case (Inl x)
      then show ?thesis using sb by (simp add: cleanup_old_data_job_body_def)
    next
      case (Inr cutoff)
      obtain s2 res where p: "run_phases fuel w cutoff cf cff st = Some (s2, res)"
        using rp [of cutoff] by (cases "run_phases fuel w cutoff cf cff st") auto
      show ?thesis using sb Inr p
        by (cases "get_stats w s2") (simp_all add: cleanup_old_data_job_body_def)
    qed
  qed
  then obtain r st' where
    "cleanup_old_data_job_body fuel w d cf cff (job_id_of (gc_current_job w)) st = Some (r, st')"
    by (cases "cleanup_old_data_job_body fuel w d cf cff (job_id_of (gc_current_job w)) st") auto
  then show ?thesis
    by (cases r) (simp_all add: cleanup_old_data_job_def)
qed

text \<open>
  C3. A run of \<^verbatim>\<open>cleanup_old_data_job\<close> returns once the scan comes back to cursor 0 or
  raises. A run that returns never touches a record crawled at or after
  \<open>now - max_age_days\<close>: whatever the collaborators do, a key whose value changes held a
  record crawled strictly before the cutoff, and it is gone. When the statistics and the
  cutoff can be computed, the connection is made, the scan comes back to cursor 0 and
  \<^verbatim>\<open>get\<close> and \<^verbatim>\<open>delete\<close> do not raise on the scanned keys, every scanned record
  crawled strictly before the cutoff is deleted, and \<^verbatim>\<open>crawl_data_cleaned\<close> is the
  number of such records, each counted once however often the scan returns its key.
  With \<open>max_age_days = 7\<close> and a store holding one record aged 10 days and one aged 2
  days, \<^verbatim>\<open>crawl_data_cleaned\<close> is 1.
\<close>

theorem gc_safety:
  "(scan_keys fuel (scan w) 0 = Some (keys, e) \<longrightarrow>
      (\<exists>r st'. cleanup_old_data_job fuel w max_age_days clean_failed_jobs clean_finished_jobs st =
                 Some (r, st'))) \<and>
   (cleanup_old_data_job fuel w max_age_days clean_failed_jobs clean_finished_jobs st =
      Some (r, st') \<longrightarrow>
      (crawled_at w st key = Some (Naive t) \<and> gc_utcnow w - max_age_days * day_us \<le> t \<longrightarrow>
         kv st' key = kv st key) \<and>
      (kv st' key \<noteq> kv st key \<longrightarrow>
         (\<exists>t'. crawled_at w st key = Some (Naive t') \<and>
               t' < gc_utcnow w - max_age_days * day_us) \<and> kv st' key = None) \<and>
      (get_stats w st = Inr stats_before \<and> get_stats w st' = Inr stats_after \<and>
       cutoff_time (gc_utcnow w) max_age_days = Inr cutoff \<and>
       get_redis_connection w = None \<and>
       scan_keys fuel (scan w) 0 = Some (keys, None) \<and>
       (\<forall>k \<in> set keys. redis_get_error w k = None \<and> redis_delete_error w k = None) \<longrightarrow>
         (\<forall>k \<in> set keys. \<forall>t'.
             crawled_at w st k = Some (Naive t') \<and>
             t' < gc_utcnow w - max_age_days * day_us \<longrightarrow> kv st' k = None) \<and>
         (\<exists>result. r = Inr result \<and> dict_get result ''status'' = JStr ''success'' \<and>
            cleanup_result result ''crawl_data_cleaned'' =
              JInt (int (card {k \<in> set keys.
                     expired w (gc_utcnow w - max_age_days * day_us) st k}))))) \<and>
   (case cleanup_old_data_job 5 demo_gc_env 7 True True demo_gc_state of
      Some (Inr result, s) \<Rightarrow> cleanup_result result ''crawl_data_cleaned'' = JInt 1
    | _ \<Rightarrow> False)"
proof (intro conjI impI)
  assume "scan_keys fuel (scan w) 0 = Some (keys, e)"
  then show "\<exists>r st'. cleanup_old_data_job fuel w max_age_days clean_failed_jobs
                        clean_finished_jobs st = Some (r, st')"
    by (rule cleanup_old_data_job_returns)
next
  assume run: "cleanup_old_data_job fuel w max_age_days clean_failed_jobs clean_finished_jobs st =
                 Some (r, st')"
  note S = gc_sweep [OF run, of key t stats_before stats_after cutoff keys]
  {
    assume "crawled_at w st key = Some (Naive t) \<and> gc_utcnow w - max_age_days * day_us \<le> t"
    then show "kv st' key = kv st key" using S by blast
  }
  {
    assume "kv st' key \<noteq> kv st key"
    then show "\<exists>t'. crawled_at w st key = Some (Naive t') \<and>
                   t' < gc_utcnow w - max_age_days * day_us"
      and "kv st' key = None" using S by blast+
  }
  {
    assume "get_stats w st = Inr stats_before \<and> get_stats w st' = Inr stats_after \<and>
       cutoff_time (gc_utcnow w) max_age_days = Inr cutoff \<and>
       get_redis_connection w = None \<and>
       scan_keys fuel (scan w) 0 = Some (keys, None) \<and>
       (\<forall>k \<in> set keys. redis_get_error w k = None \<and> redis_delete_error w k = None)"
    then show "\<forall>k \<in> set keys. \<forall>t'.
             crawled_at w st k = Some (Naive t') \<and>
             t' < gc_utcnow w - max_age_days * day_us \<longrightarrow> kv st' k = None"
      and "\<exists>result. r = Inr result \<and> dict_get result ''status'' = JStr ''success'' \<and>
            cleanup_result result ''crawl_data_cleaned'' =
              JInt (int (card {k \<in> set keys.
                     expired w (gc_utcnow w - max_age_days * day_us) st k}))"
      using S by blast+
  }
next
  show "case cleanup_old_data_job 5 demo_gc_env 7 True True demo_gc_state of
      Some (Inr result, s) \<Rightarrow> cleanup_result result ''crawl_data_cleaned'' = JInt 1
    | _ \<Rightarrow> False"
    by code_simp
qed

theorem gc_safety_witness:
  "(case cleanup_old_data_job 5 demo_gc_env 7 True True demo_gc_state of
      Some (r, s) \<Rightarrow>
        kv s ''crawl:url:xyz789'' = Some ''recent record'' \<and>
        kv s ''crawl:url:abc123'' = None \<and>
        (\<exists>result. r = Inr result \<and> dict_get result ''status'' = JStr ''success'' \<and>
           cleanup_result result ''crawl_data_cleaned'' = JInt 1)
    | None \<Rightarrow> False)"
proof -
  let ?old = "''crawl:url:abc123''" and ?new = "''crawl:url:xyz789''"
  have sc: "scan_keys 5 (scan demo_gc_env) 0 = Some ([?old, ?new], None)"
    by (simp add: demo_gc_env_def numeral_eq_Suc)
  obtain r s where
    run: "cleanup_old_data_job 5 demo_gc_env 7 True True demo_gc_state = Some (r, s)"
    using gc_safety [where fuel = 5 and w = demo_gc_env and keys = "[?old, ?new]" and e = None
        and max_age_days = 7 and clean_failed_jobs = True and clean_finished_jobs = True
        and st = demo_gc_state, THEN conjunct1, THEN mp, OF sc]
    by auto
  have now: "gc_utcnow demo_gc_env - 7 * day_us = 93 * day_us"
    by (simp add: demo_gc_env_def day_us_def)
  have cnew: "crawled_at demo_gc_env demo_gc_state ?new = Some (Naive (98 * day_us))"
    and cold: "crawled_at demo_gc_env demo_gc_state ?old = Some (Naive (90 * day_us))"
    by (simp_all add: crawled_at_def demo_gc_env_def demo_gc_state_def dict_get_default_def)
  have ex: "expired demo_gc_env (93 * day_us) demo_gc_state ?old"
    "\<not> expired demo_gc_env (93 * day_us) demo_gc_state ?new"
    by (simp_all add: expired_def cnew cold day_us_def)
  have set: "{k \<in> set [?old, ?new]. expired demo_gc_env (93 * day_us) demo_gc_state k} = {?old}"
    using ex by auto
  have sts: "get_stats demo_gc_env demo_gc_state = Inr [(''crawled_urls'', JInt 100)]"
    "get_stats demo_gc_env s = Inr [(''crawled_urls'', JInt 100)]"
    and conn: "get_redis_connection demo_gc_env = None"
    and ok: "\<forall>k \<in> set [?old, ?new].
               redis_get_error demo_gc_env k = None \<and> redis_delete_error demo_gc_env k = None"
    by (simp_all add: demo_gc_env_def)
  have cut: "cutoff_time (gc_utcnow demo_gc_env) 7 = Inr (Naive (93 * day_us))"
    by (simp add: cutoff_time_def demo_gc_env_def day_us_def datetime_min_def datetime_max_def)
  note T = gc_safety [where fuel = 5 and w = demo_gc_env and max_age_days = 7
      and clean_failed_jobs = True and clean_finished_jobs = True and st = demo_gc_state
      and r = r and st' = s and key = ?new and t = "98 * day_us"
      and stats_before = "[(''crawled_urls'', JInt 100)]"
      and stats_after = "[(''crawled_urls'', JInt 100)]"
      and cutoff = "Naive (93 * day_us)" and keys = "[?old, ?new]", unfolded now]
  note R = T [THEN conjunct2, THEN conjunct1, THEN mp, OF run]
  have le: "93 * day_us \<le> 98 * day_us" and lt: "90 * day_us < 93 * day_us"
    by (simp_all add: day_us_def)
  have 1: "kv s ?new = kv demo_gc_state ?new"
    using R [THEN conjunct1] cnew le by simp
  have 2: "kv demo_gc_state ?new = Some ''recent record''"
    by (simp add: demo_gc_state_def)
  have hyp: "get_stats demo_gc_env demo_gc_state = Inr [(''crawled_urls'', JInt 100)] \<and>
       get_stats demo_gc_env s = Inr [(''crawled_urls'', JInt 100)] \<and>
       cutoff_time (gc_utcnow demo_gc_env) 7 = Inr (Naive (93 * day_us)) \<and>
       get_redis_connection demo_gc_env = None \<and>
       scan_keys 5 (scan demo_gc_env) 0 = Some ([?old, ?new], None) \<and>
       (\<forall>k \<in> set [?old, ?new].
           redis_get_error demo_gc_env k = None \<and> redis_delete_error demo_gc_env k = None)"
    using sts conn ok cut sc by (intro conjI)
  note C = R [THEN conjunct2, THEN conjunct2, THEN mp, OF hyp]
  have "crawled_at demo_gc_env demo_gc_state ?old = Some (Naive (90 * day_us)) \<and>
        90 * day_us < 93 * day_us \<longrightarrow> kv s ?old = None"
    using C [THEN conjunct1] by simp
  then have 4: "kv s ?old = None"
    using cold lt by simp
  have 5: "\<exists>result. r = Inr result \<and> dict_get result ''status'' = JStr ''success'' \<and>
             cleanup_result result ''crawl_data_cleaned'' = JInt 1"
    using C [THEN conjunct2] by (simp only: set) simp
  show ?thesis using run 1 2 4 5 by simp
qed

section \<open>Garbage collector: independent phases\<close>









section \<open>Garbage collector: result shape\<close>

text \<open>A run of the cleanup job that returns, returns a dictionary with status and job id.\<close>

lemma cleanup_old_data_job_body_shape:
  "cleanup_old_data_job_body fuel w d cf cff job_id st = Some (Inr result, st') \<Longrightarrow>
   dict_get result ''status'' = JStr ''success'' \<and> dict_get result ''job_id'' = JStr job_id"
  by (auto simp add: cleanup_old_data_job_body_def dict_get_def
        split: sum.splits option.splits prod.splits)

lemma cleanup_old_data_job_shape:
  assumes "cleanup_old_data_job fuel w d cf cff st = Some (r, st')"
  shows "\<exists>result. r = Inr result \<and>
           dict_get result ''status'' \<in> {JStr ''success'', JStr ''error''} \<and>
           dict_get result ''job_id'' = JStr (job_id_of (gc_current_job w))"
proof (cases "cleanup_old_data_job_body fuel w d cf cff (job_id_of (gc_current_job w)) st")
  case None
  then show ?thesis using assms by (simp add: cleanup_old_data_job_def)
next
  case (Some p)
  obtain x s where p: "p = (x, s)" by (cases p)
  show ?thesis
  proof (cases x)
    case (Inl e)
    then show ?thesis using assms Some p
      by (auto simp add: cleanup_old_data_job_def dict_get_def)
  next
    case (Inr result)
    have "cleanup_old_data_job_body fuel w d cf cff (job_id_of (gc_current_job w)) st =
            Some (Inr result, s)"
      using Some p Inr by simp
    from cleanup_old_data_job_body_shape [OF this] show ?thesis
      using assms Some p Inr by (auto simp add: cleanup_old_data_job_def)
  qed
qed

end
